theory Spec2Isabelle
  imports Main "HOL-Library.Word" "HOL-Library.Char_ord" "HOL-Library.List_Lexorder"
    "HOL-Library.Multiset"
begin

section \<open>Detective Quest: constants and C strings\<close>

text \<open>
  The program verified here is the "Mestre" variant of Detective Quest (the first program of
  \<^verbatim>\<open>src/unnamed/part_000\<close>, lines 1--597) together with the room-only loop
  \<^verbatim>\<open>explorarSalas\<close> of \<^verbatim>\<open>src/detetive_quest.c\<close>.

  A C string is modelled by the list of its bytes before the terminating NUL, so
  \<^verbatim>\<open>p[0] == '\0'\<close> reads \<open>p = []\<close>; a \<^verbatim>\<open>const char*\<close> parameter that the code tests
  against \<^verbatim>\<open>NULL\<close> is a \<open>string option\<close>, with \<open>None\<close> for the null pointer.
  \<^verbatim>\<open>malloc\<close> is taken to succeed: on failure every constructor of the program calls
  \<^verbatim>\<open>exit(EXIT_FAILURE)\<close>, which ends the run with no further state.
\<close>

definition TAM_HASH :: nat where
  "TAM_HASH = 11"

definition MAX_NOME :: nat where
  "MAX_NOME = 64"

definition MAX_PISTA :: nat where
  "MAX_PISTA = 128"

text \<open>
  \<^verbatim>\<open>strncpy(dst, src, N - 1); dst[N - 1] = '\0';\<close> leaves in \<open>dst\<close> the first \<open>N - 1\<close>
  bytes of \<open>src\<close>.
\<close>

definition strncpy_term :: "nat \<Rightarrow> string \<Rightarrow> string" where
  "strncpy_term n src = take (n - 1) src"

text \<open>
  \<^verbatim>\<open>strcmp\<close> compares the bytes as \<^verbatim>\<open>unsigned char\<close>, and the C standard fixes only the
  sign of its result: the model returns \<open>-1\<close>, \<open>0\<close> or \<open>1\<close>.
\<close>

fun strcmp :: "string \<Rightarrow> string \<Rightarrow> int" where
  "strcmp [] [] = 0"
| "strcmp [] (b # bs) = - 1"
| "strcmp (a # as) [] = 1"
| "strcmp (a # as) (b # bs) =
     (if a = b then strcmp as bs
      else if (of_char a :: nat) < of_char b then - 1 else 1)"

section \<open>The hash function\<close>

text \<open>
  \<^verbatim>\<open>hash\<close> (part_000, lines 451--456): \<open>soma\<close> is an \<^verbatim>\<open>unsigned int\<close>, a 32-bit word
  whose addition wraps around; the loop adds every byte, read as \<^verbatim>\<open>unsigned char\<close>; the
  result is \<^verbatim>\<open>(int)(soma % (unsigned int)TAM_HASH)\<close>.
\<close>

fun soma_bytes :: "string \<Rightarrow> 32 word \<Rightarrow> 32 word" where
  "soma_bytes [] soma = soma"
| "soma_bytes (p # ps) soma = soma_bytes ps (soma + of_nat (of_char p))"

definition hash :: "string \<Rightarrow> int" where
  "hash pista = sint (soma_bytes pista 0 mod of_nat TAM_HASH)"


section \<open>The clue store: a binary search tree of clue texts\<close>

text \<open>
  \<^verbatim>\<open>struct PistaNode { char pista[MAX_PISTA]; PistaNode* esquerda; PistaNode* direita; }\<close>:
  a pointer to a node is either \<^verbatim>\<open>NULL\<close> or a node with its text and its two subtrees.
\<close>

datatype PistaNode = PistaNULL | PistaNode string PistaNode PistaNode

text \<open>
  \<^verbatim>\<open>inserirPista\<close> (part_000, lines 404--429). The new node keeps the first
  \<open>MAX_PISTA - 1\<close> bytes of the text, while the descent compares the whole text given.
\<close>

fun inserirPista :: "PistaNode \<Rightarrow> string option \<Rightarrow> PistaNode" where
  "inserirPista raiz None = raiz"
| "inserirPista PistaNULL (Some pista) =
     (if pista = [] then PistaNULL
      else PistaNode (strncpy_term MAX_PISTA pista) PistaNULL PistaNULL)"
| "inserirPista (PistaNode texto esquerda direita) (Some pista) =
     (if pista = [] then PistaNode texto esquerda direita
      else if strcmp pista texto < 0
        then PistaNode texto (inserirPista esquerda (Some pista)) direita
      else if strcmp pista texto > 0
        then PistaNode texto esquerda (inserirPista direita (Some pista))
      else PistaNode texto esquerda direita)"

text \<open>
  \<^verbatim>\<open>exibirPistas\<close> (lines 431--436) prints one line per node, in-order; the model returns
  the texts in the order they are printed.
\<close>

fun exibirPistas :: "PistaNode \<Rightarrow> string list" where
  "exibirPistas PistaNULL = []"
| "exibirPistas (PistaNode texto esquerda direita) =
     exibirPistas esquerda @ texto # exibirPistas direita"

text \<open>Inserting a sequence of clue texts, one after the other, into a store.\<close>

definition inserir_todas :: "PistaNode \<Rightarrow> string list \<Rightarrow> PistaNode" where
  "inserir_todas raiz ps = foldl (\<lambda>r p. inserirPista r (Some p)) raiz ps"

section \<open>The suspect index: a chained hash table\<close>

text \<open>
  \<^verbatim>\<open>struct SuspeitoNode { char pista[MAX_PISTA]; char suspeito[MAX_NOME]; SuspeitoNode* prox; }\<close>:
  a bucket is the list of its nodes from the chain head, and the table is the array of
  its \<open>TAM_HASH\<close> buckets.
\<close>

datatype SuspeitoNode = SuspeitoNode (sn_pista: string) (sn_suspeito: string)

type_synonym tabela_hash = "SuspeitoNode list list"

definition inicializarHash :: tabela_hash where
  "inicializarHash = replicate TAM_HASH []"

text \<open>\<^verbatim>\<open>inserirNaHash\<close> (lines 458--474).\<close>

definition inserirNaHash :: "tabela_hash \<Rightarrow> string option \<Rightarrow> string option \<Rightarrow> tabela_hash" where
  "inserirNaHash tabela pista suspeito =
     (case (pista, suspeito) of
        (Some p, Some s) \<Rightarrow>
          (let idx = nat (hash p);
               novo = SuspeitoNode (strncpy_term MAX_PISTA p) (strncpy_term MAX_NOME s)
           in tabela[idx := novo # tabela ! idx])
      | _ \<Rightarrow> tabela)"

text \<open>\<^verbatim>\<open>encontrarSuspeito\<close> (lines 476--485): the \<^verbatim>\<open>while (cur)\<close> scan of one chain.\<close>

fun percorrer_cadeia :: "SuspeitoNode list \<Rightarrow> string \<Rightarrow> string" where
  "percorrer_cadeia [] pista = ''Desconhecido''"
| "percorrer_cadeia (cur # prox) pista =
     (if strcmp (sn_pista cur) pista = 0 then sn_suspeito cur
      else percorrer_cadeia prox pista)"

definition encontrarSuspeito :: "tabela_hash \<Rightarrow> string option \<Rightarrow> string" where
  "encontrarSuspeito tabela pista =
     (case pista of
        None \<Rightarrow> ''Desconhecido''
      | Some p \<Rightarrow> percorrer_cadeia (tabela ! nat (hash p)) p)"

section \<open>Counting the clues that point to a suspect\<close>

text \<open>
  \<^verbatim>\<open>contarPistasPorSuspeitoNaBST\<close> (lines 501--528) with its nested \<^verbatim>\<open>contadorRec\<close>.
  The counter is a C \<^verbatim>\<open>int\<close>; it never exceeds the number of nodes of the tree
  (lemma \<open>contadorRec_bounds\<close> below).
\<close>

fun contadorRec :: "tabela_hash \<Rightarrow> string \<Rightarrow> PistaNode \<Rightarrow> int" where
  "contadorRec tabela acusado PistaNULL = 0"
| "contadorRec tabela acusado (PistaNode texto esquerda direita) =
     (let c = 0 + contadorRec tabela acusado esquerda;
          s = encontrarSuspeito tabela (Some texto);
          c = (if strcmp s acusado = 0 then c + 1 else c)
      in c + contadorRec tabela acusado direita)"

definition contarPistasPorSuspeitoNaBST :: "tabela_hash \<Rightarrow> PistaNode \<Rightarrow> string \<Rightarrow> int" where
  "contarPistasPorSuspeitoNaBST tabela raizPistas acusado =
     (if raizPistas = PistaNULL then 0 else contadorRec tabela acusado raizPistas)"

section \<open>The console\<close>

text \<open>
  Standard input is the list of bytes not yet read; standard output is the list of the
  reports printed so far, one value per report of the program. Clearing the screen
  (\<^verbatim>\<open>limparTela\<close>) leaves no trace in this state.
\<close>

datatype mensagem =
    MsgLocal string
  | MsgPistaEncontrada string
  | MsgNenhumaPista
  | MsgEscolha "string option" "string option"
  | MsgCaminhoInexistenteEsquerda
  | MsgCaminhoInexistenteDireita
  | MsgEncerrando
  | MsgOpcaoInvalida
  | MsgFimDaExploracao
  | MsgFaseFinal
  | MsgEntradaInvalida
  | MsgAcusacaoAbortada
  | MsgAcusacaoConfirmada string int
  | MsgAcusacaoFragil string int
  | MsgAcusacaoSemFundamento string
  | MsgResumoPistas "string list"
  | MsgAssociacoes "SuspeitoNode list"

record console =
  entrada :: string
  saida :: "mensagem list"

definition imprimir :: "mensagem \<Rightarrow> console \<Rightarrow> console" where
  "imprimir m con = con\<lparr>saida := saida con @ [m]\<rparr>"

definition NL :: char where
  "NL = CHR 0x0A"

definition NUL :: char where
  "NUL = CHR 0x00"

text \<open>\<^verbatim>\<open>isspace\<close> in the C locale: space and the bytes 9 to 13.\<close>

definition isspace :: "char \<Rightarrow> bool" where
  "isspace c = (c = CHR 0x20 \<or> (9 \<le> (of_char c :: nat) \<and> (of_char c :: nat) \<le> 13))"

text \<open>
  \<^verbatim>\<open>scanf(" %c", &opcao)\<close> skips white space and stores the next byte; at end of input
  nothing is stored and \<open>opcao\<close> keeps its value.
\<close>

definition scanf_char :: "char \<Rightarrow> console \<Rightarrow> char \<times> console" where
  "scanf_char opcao con =
     (case dropWhile isspace (entrada con) of
        [] \<Rightarrow> (opcao, con\<lparr>entrada := []\<rparr>)
      | c # resto \<Rightarrow> (c, con\<lparr>entrada := resto\<rparr>))"

text \<open>\<^verbatim>\<open>limparBufferEntrada\<close> (lines 579--582) discards the input up to and including
  the next newline, or up to the end of input.\<close>

definition limparBufferEntrada :: "console \<Rightarrow> console" where
  "limparBufferEntrada con = con\<lparr>entrada := drop 1 (dropWhile (\<lambda>c. c \<noteq> NL) (entrada con))\<rparr>"

text \<open>
  \<^verbatim>\<open>fgets(buf, n, stdin)\<close> returns \<^verbatim>\<open>NULL\<close> at end of input; otherwise it reads at most
  \<open>n - 1\<close> bytes, stopping after a newline.
\<close>

definition fgets :: "nat \<Rightarrow> console \<Rightarrow> string option \<times> console" where
  "fgets n con =
     (if entrada con = [] then (None, con)
      else
        (let linha = takeWhile (\<lambda>c. c \<noteq> NL) (entrada con)
                       @ take 1 (dropWhile (\<lambda>c. c \<noteq> NL) (entrada con));
             buf = take (n - 1) linha
         in (Some buf, con\<lparr>entrada := drop (length buf) (entrada con)\<rparr>)))"

text \<open>
  \<^verbatim>\<open>nome[strcspn(nome, "\n")] = '\0'\<close>: as a C string, the buffer then ends before its
  first newline (or before a NUL byte that was read).
\<close>

definition cortar_linha :: "string \<Rightarrow> string" where
  "cortar_linha buf = takeWhile (\<lambda>c. c \<noteq> NUL \<and> c \<noteq> NL) buf"


section \<open>The mansion and its exploration\<close>

text \<open>
  \<^verbatim>\<open>struct Sala { char nome[MAX_NOME]; char pista[MAX_PISTA]; Sala* esquerda; Sala* direita; }\<close>.
  The rooms form a tree, so a room holds its two subtrees, \<open>None\<close> for \<^verbatim>\<open>NULL\<close>.
  \<^verbatim>\<open>criarSala\<close> (lines 333--354) copies both texts into the fixed buffers.
\<close>

datatype Sala = Sala (nome: string) (pista: string) (esquerda: "Sala option") (direita: "Sala option")

definition criarSala :: "string \<Rightarrow> string option \<Rightarrow> Sala" where
  "criarSala nome_sala pista_sala =
     Sala (strncpy_term MAX_NOME nome_sala)
       (case pista_sala of
          None \<Rightarrow> []
        | Some p \<Rightarrow> (if p \<noteq> [] then strncpy_term MAX_PISTA p else []))
       None None"

text \<open>
  The first half of the loop body of \<^verbatim>\<open>explorarMansao\<close> (lines 360--378): the room is
  announced, its clue, when not empty, is inserted into the store, and the menu is shown.
\<close>

definition chegar :: "Sala \<Rightarrow> PistaNode \<Rightarrow> console \<Rightarrow> PistaNode \<times> console" where
  "chegar atual raizPistas con =
     (let con1 = imprimir (MsgLocal (nome atual)) con;
          (raiz1, con2) =
            (if pista atual \<noteq> []
             then (inserirPista raizPistas (Some (pista atual)),
                   imprimir (MsgPistaEncontrada (pista atual)) con1)
             else (raizPistas, imprimir MsgNenhumaPista con1))
      in (raiz1,
          imprimir (MsgEscolha (map_option nome (esquerda atual))
                      (map_option nome (direita atual))) con2))"

text \<open>Lines 379--380: \<^verbatim>\<open>scanf(" %c", &opcao); limparBufferEntrada();\<close>\<close>

definition ler_opcao :: "char \<Rightarrow> console \<Rightarrow> char \<times> console" where
  "ler_opcao opcao con =
     (let (opcao1, con1) = scanf_char opcao con in (opcao1, limparBufferEntrada con1))"

text \<open>
  \<^verbatim>\<open>explorarMansao\<close> (lines 356--402). The loop ends only on the command \<open>s\<close>; it may
  run forever (at end of input \<open>opcao\<close> keeps its last value), so the model takes the
  number of iterations it may run and returns \<open>None\<close> when they do not suffice. The
  local \<open>opcao\<close> is not initialised in the source: its first value is a parameter. The
  result is the store left in \<^verbatim>\<open>*raizPistas\<close> and the console.
\<close>

fun explorarMansao ::
  "nat \<Rightarrow> char \<Rightarrow> Sala option \<Rightarrow> PistaNode \<Rightarrow> console \<Rightarrow> (PistaNode \<times> console) option" where
  "explorarMansao n opcao None raizPistas con = Some (raizPistas, con)"
| "explorarMansao 0 opcao (Some atual) raizPistas con = None"
| "explorarMansao (Suc n) opcao (Some atual) raizPistas con =
     (let (raiz1, con1) = chegar atual raizPistas con;
          (opcao1, con2) = ler_opcao opcao con1
      in if opcao1 = CHR ''e'' \<or> opcao1 = CHR ''E'' then
           (if esquerda atual \<noteq> None
            then explorarMansao n opcao1 (esquerda atual) raiz1 con2
            else explorarMansao n opcao1 (Some atual) raiz1
                   (limparBufferEntrada (imprimir MsgCaminhoInexistenteEsquerda con2)))
         else if opcao1 = CHR ''d'' \<or> opcao1 = CHR ''D'' then
           (if direita atual \<noteq> None
            then explorarMansao n opcao1 (direita atual) raiz1 con2
            else explorarMansao n opcao1 (Some atual) raiz1
                   (limparBufferEntrada (imprimir MsgCaminhoInexistenteDireita con2)))
         else if opcao1 = CHR ''s'' \<or> opcao1 = CHR ''S'' then
           Some (raiz1, imprimir MsgEncerrando con2)
         else explorarMansao n opcao1 (Some atual) raiz1
                (limparBufferEntrada (imprimir MsgOpcaoInvalida con2)))"

text \<open>
  The room-only variant, \<^verbatim>\<open>explorarSalas\<close> of \<^verbatim>\<open>src/detetive_quest.c\<close> (lines 150--191).
  Its rooms carry no clue (\<^verbatim>\<open>struct Sala { char nome[50]; Sala* esquerda; Sala* direita; }\<close>),
  and it has the leaf test of lines 159--162.
\<close>

datatype SalaSimples =
  SalaSimples (nome_s: string) (esquerda_s: "SalaSimples option") (direita_s: "SalaSimples option")

fun explorarSalas :: "nat \<Rightarrow> char \<Rightarrow> SalaSimples option \<Rightarrow> console \<Rightarrow> console option" where
  "explorarSalas n opcao None con = Some con"
| "explorarSalas 0 opcao (Some atual) con = None"
| "explorarSalas (Suc n) opcao (Some atual) con =
     (let con1 = imprimir (MsgLocal (nome_s atual)) con
      in if esquerda_s atual = None \<and> direita_s atual = None
         then Some (imprimir MsgFimDaExploracao con1)
         else
           (let con2 = imprimir (MsgEscolha (map_option nome_s (esquerda_s atual))
                                   (map_option nome_s (direita_s atual))) con1;
                (opcao1, con3) = ler_opcao opcao con2
            in if opcao1 = CHR ''e'' \<or> opcao1 = CHR ''E'' then
                 (if esquerda_s atual \<noteq> None
                  then explorarSalas n opcao1 (esquerda_s atual) con3
                  else explorarSalas n opcao1 (Some atual)
                         (imprimir MsgCaminhoInexistenteEsquerda con3))
               else if opcao1 = CHR ''d'' \<or> opcao1 = CHR ''D'' then
                 (if direita_s atual \<noteq> None
                  then explorarSalas n opcao1 (direita_s atual) con3
                  else explorarSalas n opcao1 (Some atual)
                         (imprimir MsgCaminhoInexistenteDireita con3))
               else if opcao1 = CHR ''s'' \<or> opcao1 = CHR ''S'' then
                 Some (imprimir MsgEncerrando con3)
               else explorarSalas n opcao1 (Some atual) (imprimir MsgOpcaoInvalida con3)))"

section \<open>The accusation\<close>

text \<open>
  \<^verbatim>\<open>verificarSuspeitoFinal\<close> (lines 530--573). The function reads the table and the store
  and writes neither; the model returns both next to the console, as the function leaves
  them.
\<close>

definition verificarSuspeitoFinal ::
  "tabela_hash \<Rightarrow> PistaNode \<Rightarrow> console \<Rightarrow> tabela_hash \<times> PistaNode \<times> console" where
  "verificarSuspeitoFinal tabela raizPistas con =
     (case fgets MAX_NOME (imprimir MsgFaseFinal con) of
        (None, con1) \<Rightarrow> (tabela, raizPistas, imprimir MsgEntradaInvalida con1)
      | (Some buf, con1) \<Rightarrow>
          (let acusado = cortar_linha buf
           in if acusado = [] then (tabela, raizPistas, imprimir MsgAcusacaoAbortada con1)
              else
                (let total = contarPistasPorSuspeitoNaBST tabela raizPistas acusado;
                     con2 =
                       (if total \<ge> 2 then imprimir (MsgAcusacaoConfirmada acusado total) con1
                        else if total > 0 then imprimir (MsgAcusacaoFragil acusado total) con1
                        else imprimir (MsgAcusacaoSemFundamento acusado) con1);
                     con3 = imprimir (MsgResumoPistas (exibirPistas raizPistas)) con2
                 in (tabela, raizPistas,
                     imprimir (MsgAssociacoes (concat (take TAM_HASH tabela))) con3))))"

section \<open>The fixed data of \<^verbatim>\<open>main\<close>\<close>

text \<open>
  The six rooms and the six associations of \<^verbatim>\<open>main\<close> (lines 266--297); the letters
  outside ASCII are the bytes of their UTF-8 encoding.
\<close>

definition pista_hall :: string where
  "pista_hall = ''Pegadas de lama recentes''"

definition pista_biblioteca :: string where
  "pista_biblioteca =
     ''P'' @ [CHR 0xC3, CHR 0xA1] @ ''gina arrancada de um di'' @ [CHR 0xC3, CHR 0xA1] @ ''rio''"

definition pista_cozinha :: string where
  "pista_cozinha = ''Copo quebrado com marca de batom''"

definition pista_estudo :: string where
  "pista_estudo = ''Envelope selado com cera vermelha''"

definition pista_jardim :: string where
  "pista_jardim = ''Chave antiga ca'' @ [CHR 0xC3, CHR 0xAD] @ ''da entre as flores''"

definition pista_sotao :: string where
  "pista_sotao = ''Retrato rasgado de uma mulher desconhecida''"

definition estudo :: Sala where
  "estudo = criarSala ''Sala de Estudo'' (Some pista_estudo)"

definition jardim :: Sala where
  "jardim = criarSala ''Jardim'' (Some pista_jardim)"

definition sotao :: Sala where
  "sotao = criarSala (''S'' @ [CHR 0xC3, CHR 0xB3] @ ''t'' @ [CHR 0xC3, CHR 0xA3] @ ''o'')
             (Some pista_sotao)"

definition biblioteca :: Sala where
  "biblioteca =
     (case criarSala ''Biblioteca'' (Some pista_biblioteca) of
        Sala n p e d \<Rightarrow> Sala n p (Some estudo) (Some jardim))"

definition cozinha :: Sala where
  "cozinha =
     (case criarSala ''Cozinha'' (Some pista_cozinha) of
        Sala n p e d \<Rightarrow> Sala n p e (Some sotao))"

definition hall :: Sala where
  "hall =
     (case criarSala ''Hall de Entrada'' (Some pista_hall) of
        Sala n p e d \<Rightarrow> Sala n p (Some biblioteca) (Some cozinha))"

definition tabela_main :: tabela_hash where
  "tabela_main =
     foldl (\<lambda>t (p, s). inserirNaHash t (Some p) (Some s)) inicializarHash
       [(pista_hall, ''Jardineiro''),
        (pista_biblioteca, ''Governanta''),
        (pista_cozinha, ''Madame Sinclair''),
        (pista_estudo, ''Governanta''),
        (pista_jardim, ''Jardineiro''),
        (pista_sotao, ''Madame Sinclair'')]"


section \<open>Notions used to state and prove the properties\<close>

text \<open>The sum of the bytes of a text as a natural number, without any wrap-around.\<close>

definition soma_dos_bytes :: "string \<Rightarrow> nat" where
  "soma_dos_bytes p = sum_list (map of_char p)"

text \<open>
  Search-tree invariants over the byte-wise lexicographic order of texts (the order of
  \<open>strcmp\<close>, lemma \<open>strcmp_less_iff\<close>): \<open>ordenada\<close> is the strict one;
  \<open>quase_ordenada\<close> allows a text to occur again in its right subtree.
\<close>

fun ordenada :: "PistaNode \<Rightarrow> bool" where
  "ordenada PistaNULL = True"
| "ordenada (PistaNode texto esq dir) =
     (ordenada esq \<and> ordenada dir
      \<and> (\<forall>x \<in> set (exibirPistas esq). x < texto)
      \<and> (\<forall>x \<in> set (exibirPistas dir). texto < x))"

fun quase_ordenada :: "PistaNode \<Rightarrow> bool" where
  "quase_ordenada PistaNULL = True"
| "quase_ordenada (PistaNode texto esq dir) =
     (quase_ordenada esq \<and> quase_ordenada dir
      \<and> (\<forall>x \<in> set (exibirPistas esq). x < texto)
      \<and> (\<forall>x \<in> set (exibirPistas dir). texto \<le> x))"

text \<open>
  The accusation as the specification words it: \<open>countClueMatches\<close> over an enumeration of
  the store in any order, and \<open>classify\<close> on the count.
\<close>

definition countClueMatches :: "tabela_hash \<Rightarrow> string list \<Rightarrow> string \<Rightarrow> nat" where
  "countClueMatches tabela enumeracao acusado =
     length (filter (\<lambda>c. encontrarSuspeito tabela (Some c) = acusado) enumeracao)"

datatype veredito = Confirmada | Fragil | SemFundamento

definition classify :: "nat \<Rightarrow> veredito" where
  "classify n = (if n \<ge> 2 then Confirmada else if n = 1 then Fragil else SemFundamento)"

fun relato_veredito :: "veredito \<Rightarrow> string \<Rightarrow> nat \<Rightarrow> mensagem" where
  "relato_veredito Confirmada acusado n = MsgAcusacaoConfirmada acusado (int n)"
| "relato_veredito Fragil acusado n = MsgAcusacaoFragil acusado (int n)"
| "relato_veredito SemFundamento acusado n = MsgAcusacaoSemFundamento acusado"

text \<open>
  An invalid navigation command at a room: a direction whose edge is absent, or a byte
  that is none of the six commands; and the report the engine prints for it.
\<close>

definition comando_invalido :: "Sala \<Rightarrow> char \<Rightarrow> bool" where
  "comando_invalido atual c =
     (if c = CHR ''e'' \<or> c = CHR ''E'' then esquerda atual = None
      else if c = CHR ''d'' \<or> c = CHR ''D'' then direita atual = None
      else \<not> (c = CHR ''s'' \<or> c = CHR ''S''))"

definition relato_invalido :: "char \<Rightarrow> mensagem" where
  "relato_invalido c =
     (if c = CHR ''e'' \<or> c = CHR ''E'' then MsgCaminhoInexistenteEsquerda
      else if c = CHR ''d'' \<or> c = CHR ''D'' then MsgCaminhoInexistenteDireita
      else MsgOpcaoInvalida)"


section \<open>The order of \<open>strcmp\<close>\<close>

text \<open>
  The sign of \<open>strcmp\<close> is the lexicographic order of the byte lists, with bytes compared
  by their values.
\<close>

lemma strcmp_less_iff: "strcmp a b < 0 \<longleftrightarrow> a < b"
  by (induction a b rule: strcmp.induct) (auto simp: less_char_def)

lemma strcmp_eq_iff: "strcmp a b = 0 \<longleftrightarrow> a = b"
  by (induction a b rule: strcmp.induct) auto

lemma strcmp_greater_iff: "0 < strcmp a b \<longleftrightarrow> b < a"
  by (induction a b rule: strcmp.induct) (auto simp: less_char_def linorder_not_less order_le_less)


lemma strcmp_extensao: "strcmp (xs @ c # cs) xs = 1"
  by (induction xs) simp_all

section \<open>Properties of the hash function\<close>

lemma soma_bytes_acc: "soma_bytes p s = s + soma_bytes p 0"
proof (induction p arbitrary: s)
  case Nil
  show ?case by simp
next
  case (Cons c cs)
  show ?case
    using Cons.IH [of "s + of_nat (of_char c)"] Cons.IH [of "of_nat (of_char c)"] by simp
qed

lemma soma_bytes_sum: "soma_bytes p 0 = of_nat (soma_dos_bytes p)"
proof (induction p)
  case Nil
  show ?case by (simp add: soma_dos_bytes_def)
next
  case (Cons c cs)
  show ?case
    using soma_bytes_acc [of cs "of_nat (of_char c)"] Cons.IH by (simp add: soma_dos_bytes_def)
qed

lemma unat_soma_bytes: "unat (soma_bytes p 0) = soma_dos_bytes p mod 2 ^ 32"
  by (simp add: soma_bytes_sum unat_of_nat)

text \<open>The cast to \<^verbatim>\<open>int\<close> keeps a remainder below 11.\<close>

lemma sint_small:
  fixes w :: "32 word"
  assumes "unat w < 11"
  shows "sint w = int (unat w)"
proof -
  have "int (unat w) < 11" using assms by linarith
  then have b: "uint w < 2 ^ 31" by simp
  have "(- (2 ^ 31) :: int) \<le> 0" by simp
  also have "0 \<le> uint w" by simp
  finally have "- (2 ^ 31) \<le> uint w" .
  with b have "signed_take_bit 31 (uint w) = uint w"
    by (rule signed_take_bit_int_eq_self [rotated])
  then have "sint w = uint w" by (simp add: sint_uint)
  then show ?thesis by simp
qed

lemma hash_sum: "hash p = int ((soma_dos_bytes p mod 2 ^ 32) mod 11)"
proof -
  let ?w = "soma_bytes p 0 mod (11 :: 32 word)"
  have u: "unat ?w = unat (soma_bytes p 0) mod 11" by (simp add: unat_mod)
  then have "unat ?w < 11" by simp
  then have "sint ?w = int (unat ?w)" by (rule sint_small)
  with u show ?thesis by (simp only: hash_def TAM_HASH_def unat_soma_bytes of_nat_numeral)
qed

lemma bytes_bound: "soma_dos_bytes p \<le> 255 * length p"
proof (induction p)
  case Nil
  show ?case by (simp add: soma_dos_bytes_def)
next
  case (Cons c cs)
  have "(of_char c :: nat) < 256" by simp
  then have "(of_char c :: nat) \<le> 255" by arith
  then show ?case using Cons.IH by (simp add: soma_dos_bytes_def)
qed

lemma hash_range: "0 \<le> hash p \<and> hash p < int TAM_HASH"
  by (simp add: hash_sum TAM_HASH_def)

lemma nat_hash_less: "nat (hash p) < TAM_HASH"
  using hash_range [of p] by linarith

text \<open>
  Claim C8, as amended. For every text, \<open>hash\<close> is the sum of the bytes reduced modulo
  \<open>2 ^ 32\<close> (the width of \<^verbatim>\<open>unsigned int\<close>) and then modulo the bucket count 11, and it lies
  in \<open>[0, TAM_HASH)\<close>; being a function of the text alone, equal texts get equal buckets.
  It equals the sum of the bytes modulo 11 whenever that sum is below \<open>2 ^ 32\<close>, which
  holds for every text of at most 16843009 bytes.
\<close>

theorem hash_sum_below_wrap:
  "hash p = int (soma_dos_bytes p mod 2 ^ 32 mod TAM_HASH)
   \<and> 0 \<le> hash p \<and> hash p < int TAM_HASH
   \<and> (soma_dos_bytes p < 2 ^ 32 \<longrightarrow> hash p = int (soma_dos_bytes p mod TAM_HASH))
   \<and> (length p \<le> 16843009 \<longrightarrow> soma_dos_bytes p < 2 ^ 32)"
proof -
  have a: "hash p = int (soma_dos_bytes p mod 2 ^ 32 mod TAM_HASH)"
    by (simp add: hash_sum TAM_HASH_def)
  have b: "0 \<le> hash p \<and> hash p < int TAM_HASH" by (rule hash_range)
  have c: "soma_dos_bytes p < 2 ^ 32 \<longrightarrow> hash p = int (soma_dos_bytes p mod TAM_HASH)"
    using a by simp
  have d: "length p \<le> 16843009 \<longrightarrow> soma_dos_bytes p < 2 ^ 32"
  proof
    assume "length p \<le> 16843009"
    then have "255 * length p \<le> 255 * 16843009" by simp
    with bytes_bound [of p] show "soma_dos_bytes p < 2 ^ 32" by simp
  qed
  from a b c d show ?thesis by blast
qed

theorem hash_sum_below_wrap_witness:
  "length pista_hall \<le> 16843009 \<and> soma_dos_bytes pista_hall < 2 ^ 32
   \<and> soma_dos_bytes pista_hall mod TAM_HASH = 3 \<and> hash pista_hall = 3"
  using hash_sum_below_wrap [of pista_hall]
  by (simp add: pista_hall_def TAM_HASH_def soma_dos_bytes_def)

text \<open>
  The claim as stated fails where the 32-bit sum wraps: 16843009 bytes \<open>0xFF\<close> followed
  by one byte \<open>0x01\<close> sum to \<open>2 ^ 32\<close>, so \<open>soma\<close> is 0 and the bucket is 0, while the
  sum of the bytes modulo 11 is 4.
\<close>

theorem hash_wraps_counterexample:
  "hash (replicate 16843009 (CHR 0xFF) @ [CHR 0x01]) = 0
   \<and> int (soma_dos_bytes (replicate 16843009 (CHR 0xFF) @ [CHR 0x01]) mod TAM_HASH) = 4"
  by (simp add: hash_sum sum_list_replicate TAM_HASH_def soma_dos_bytes_def)


section \<open>Properties of the clue store\<close>

lemma take_le_self: "take n p \<le> (p :: string)"
proof (induction p arbitrary: n)
  case Nil show ?case by simp
next
  case (Cons c cs)
  show ?case using Cons.IH by (cases n) simp_all
qed

lemma less_imp_le_take: "length k \<le> n \<Longrightarrow> k < p \<Longrightarrow> k \<le> take n (p :: string)"
proof (induction k arbitrary: p n)
  case Nil show ?case by simp
next
  case (Cons a as)
  from Cons.prems obtain m where n: "n = Suc m" by (cases n) auto
  from Cons.prems obtain b bs where p: "p = b # bs" by (cases p) auto
  show ?case using Cons.prems Cons.IH [of m bs] by (auto simp: n p)
qed

lemma set_inserirPista:
  "set (exibirPistas (inserirPista t (Some p)))
     \<subseteq> insert (strncpy_term MAX_PISTA p) (set (exibirPistas t))"
  by (induction t) auto

lemma inserirPista_member:
  "p \<noteq> [] \<Longrightarrow> strncpy_term MAX_PISTA p = p \<Longrightarrow> p \<in> set (exibirPistas (inserirPista t (Some p)))"
  by (induction t) (auto simp: strcmp_eq_iff strcmp_less_iff strcmp_greater_iff)

lemma comprimento_inserirPista:
  "\<forall>x \<in> set (exibirPistas t). length x < MAX_PISTA \<Longrightarrow>
   \<forall>x \<in> set (exibirPistas (inserirPista t (Some p))). length x < MAX_PISTA"
  using set_inserirPista [of t p] by (auto simp: strncpy_term_def MAX_PISTA_def)

lemma quase_ordenada_inserirPista:
  assumes "quase_ordenada t" and "\<forall>x \<in> set (exibirPistas t). length x < MAX_PISTA"
  shows "quase_ordenada (inserirPista t (Some p))"
  using assms
proof (induction t)
  case PistaNULL
  show ?case by simp
next
  case (PistaNode k e d)
  have kl: "length k \<le> MAX_PISTA - 1" using PistaNode.prems(2) by (simp add: MAX_PISTA_def)
  show ?case
  proof (cases "p = []")
    case True
    then show ?thesis using PistaNode.prems by simp
  next
    case False
    consider (lt) "p < k" | (eq) "p = k" | (gt) "k < p" by (rule linorder_cases [of p k]) auto
    then show ?thesis
    proof cases
      case lt
      have "strncpy_term MAX_PISTA p < k"
        using take_le_self [of "MAX_PISTA - 1" p] lt by (simp add: strncpy_term_def)
      then have "\<forall>x \<in> set (exibirPistas (inserirPista e (Some p))). x < k"
        using set_inserirPista [of e p] PistaNode.prems(1) by auto
      then show ?thesis using PistaNode lt False
        by (simp add: strcmp_less_iff)
    next
      case eq
      then show ?thesis using PistaNode.prems False by (simp add: strcmp_less_iff strcmp_greater_iff)
    next
      case gt
      have "k \<le> strncpy_term MAX_PISTA p"
        using less_imp_le_take [OF kl gt] by (simp add: strncpy_term_def)
      then have "\<forall>x \<in> set (exibirPistas (inserirPista d (Some p))). k \<le> x"
        using set_inserirPista [of d p] PistaNode.prems(1) by auto
      then show ?thesis using PistaNode gt False
        by (simp add: strcmp_less_iff strcmp_greater_iff)
    qed
  qed
qed

lemma inserirPista_presente:
  "quase_ordenada t \<Longrightarrow> p \<in> set (exibirPistas t) \<Longrightarrow> inserirPista t (Some p) = t"
proof (induction t)
  case PistaNULL
  then show ?case by simp
next
  case (PistaNode k e d)
  consider (lt) "p < k" | (eq) "p = k" | (gt) "k < p" by (rule linorder_cases [of p k]) auto
  then show ?case
  proof cases
    case lt
    then have "p \<in> set (exibirPistas e)" using PistaNode.prems by auto
    then show ?thesis using PistaNode lt by (simp add: strcmp_less_iff)
  next
    case eq
    then show ?thesis by (simp add: strcmp_less_iff strcmp_greater_iff)
  next
    case gt
    then have "p \<in> set (exibirPistas d)" using PistaNode.prems by auto
    then show ?thesis using PistaNode gt by (simp add: strcmp_less_iff strcmp_greater_iff)
  qed
qed

lemma inserir_todas_snoc:
  "inserir_todas t (ps @ [p]) = inserirPista (inserir_todas t ps) (Some p)"
  by (simp add: inserir_todas_def)

lemma inserir_todas_inv:
  "quase_ordenada (inserir_todas PistaNULL ps)
   \<and> (\<forall>x \<in> set (exibirPistas (inserir_todas PistaNULL ps)). length x < MAX_PISTA)"
proof (induction ps rule: rev_induct)
  case Nil
  show ?case by (simp add: inserir_todas_def)
next
  case (snoc p ps)
  then show ?case
    using quase_ordenada_inserirPista comprimento_inserirPista
    by (simp only: inserir_todas_snoc) blast
qed


lemma ordenada_inserirPista:
  assumes "ordenada t" and "length p < MAX_PISTA"
  shows "ordenada (inserirPista t (Some p))"
  using assms(1)
proof (induction t)
  case PistaNULL
  show ?case by simp
next
  case (PistaNode k e d)
  have c: "strncpy_term MAX_PISTA p = p" using assms(2) by (simp add: strncpy_term_def)
  have l: "p < k \<Longrightarrow> \<forall>x \<in> set (exibirPistas (inserirPista e (Some p))). x < k"
    using set_inserirPista [of e p] PistaNode.prems by (auto simp: c)
  have r: "k < p \<Longrightarrow> \<forall>x \<in> set (exibirPistas (inserirPista d (Some p))). k < x"
    using set_inserirPista [of d p] PistaNode.prems by (auto simp: c)
  show ?case using PistaNode l r
    by (simp add: strcmp_less_iff strcmp_greater_iff)
qed

lemma ordenada_inserir_todas:
  "\<forall>p \<in> set ps. length p < MAX_PISTA \<Longrightarrow> ordenada (inserir_todas PistaNULL ps)"
proof (induction ps rule: rev_induct)
  case Nil
  show ?case by (simp add: inserir_todas_def)
next
  case (snoc p ps)
  then show ?case using ordenada_inserirPista [of "inserir_todas PistaNULL ps" p]
    by (simp add: inserir_todas_snoc)
qed

lemma ordenada_sorted: "ordenada t \<Longrightarrow> sorted_wrt (<) (exibirPistas t)"
proof (induction t)
  case PistaNULL
  show ?case by simp
next
  case (PistaNode k e d)
  then show ?case by (auto simp: sorted_wrt_append intro: less_trans)
qed


text \<open>
  Claim C2, as amended. For every sequence of clue texts of at most 127 bytes each (what
  a room can hold) inserted into an initially empty store, the in-order enumeration is
  strictly ascending under \<open>strcmp\<close> and has no duplicates.
\<close>

theorem enumeracao_estritamente_crescente:
  assumes "\<forall>p \<in> set ps. length p < MAX_PISTA"
  shows "sorted_wrt (\<lambda>a b. strcmp a b < 0) (exibirPistas (inserir_todas PistaNULL ps))
         \<and> distinct (exibirPistas (inserir_todas PistaNULL ps))"
proof -
  have s: "sorted_wrt (<) (exibirPistas (inserir_todas PistaNULL ps))"
    using assms by (intro ordenada_sorted ordenada_inserir_todas)
  then have "distinct (exibirPistas (inserir_todas PistaNULL ps))"
    by (simp add: strict_sorted_iff)
  with s show ?thesis by (simp add: strcmp_less_iff)
qed


theorem enumeracao_estritamente_crescente_witness:
  "length pista_hall < MAX_PISTA \<and> length pista_biblioteca < MAX_PISTA
   \<and> length pista_jardim < MAX_PISTA
   \<and> exibirPistas (inserir_todas PistaNULL [pista_hall, pista_biblioteca, pista_jardim])
       = [pista_jardim, pista_hall, pista_biblioteca]
   \<and> sorted_wrt (\<lambda>a b. strcmp a b < 0)
        (exibirPistas (inserir_todas PistaNULL [pista_hall, pista_biblioteca, pista_jardim]))
   \<and> distinct (exibirPistas (inserir_todas PistaNULL [pista_hall, pista_biblioteca, pista_jardim]))"
proof -
  have l: "length pista_hall < MAX_PISTA \<and> length pista_biblioteca < MAX_PISTA
           \<and> length pista_jardim < MAX_PISTA"
    by (simp add: pista_hall_def pista_biblioteca_def pista_jardim_def MAX_PISTA_def)
  then have h: "\<forall>p \<in> set [pista_hall, pista_biblioteca, pista_jardim]. length p < MAX_PISTA"
    by simp
  have e: "exibirPistas (inserir_todas PistaNULL [pista_hall, pista_biblioteca, pista_jardim])
            = [pista_jardim, pista_hall, pista_biblioteca]"
    by (simp add: inserir_todas_def pista_hall_def pista_biblioteca_def pista_jardim_def
          strncpy_term_def MAX_PISTA_def)
  from l e enumeracao_estritamente_crescente [OF h] show ?thesis by blast
qed


text \<open>
  The claim as stated fails for longer texts: a node keeps only the first 127 bytes,
  while the descent compares the whole text, so two texts of 128 bytes with the same
  first 127 bytes are both stored, as the same text.
\<close>

theorem enumeracao_repetida_counterexample:
  "exibirPistas (inserir_todas PistaNULL
      [replicate 127 (CHR ''a'') @ ''b'', replicate 127 (CHR ''a'') @ ''c''])
   = [replicate 127 (CHR ''a''), replicate 127 (CHR ''a'')]
   \<and> \<not> distinct (exibirPistas (inserir_todas PistaNULL
      [replicate 127 (CHR ''a'') @ ''b'', replicate 127 (CHR ''a'') @ ''c'']))"
  by (simp add: inserir_todas_def strncpy_term_def MAX_PISTA_def strcmp_extensao)


lemma inserirPista_vazia: "inserirPista t (Some []) = t"
  by (cases t) simp_all

text \<open>
  Claim C7, as amended. For every store built by insertions from the empty store:
  inserting a clue text that the store already enumerates (byte-wise the same text)
  returns the same store, hence the same enumeration; and for every clue text of at
  most 127 bytes, inserting it a second time returns the store of the first insertion,
  so the enumeration after the second insertion is the one after the first.
\<close>

theorem reinsercao_sem_efeito:
  "(p \<in> set (exibirPistas (inserir_todas PistaNULL ps)) \<longrightarrow>
      inserirPista (inserir_todas PistaNULL ps) (Some p) = inserir_todas PistaNULL ps
      \<and> exibirPistas (inserirPista (inserir_todas PistaNULL ps) (Some p))
          = exibirPistas (inserir_todas PistaNULL ps))
   \<and> (length p < MAX_PISTA \<longrightarrow>
      inserirPista (inserirPista (inserir_todas PistaNULL ps) (Some p)) (Some p)
        = inserirPista (inserir_todas PistaNULL ps) (Some p)
      \<and> exibirPistas (inserir_todas PistaNULL (ps @ [p, p]))
          = exibirPistas (inserir_todas PistaNULL (ps @ [p])))"
proof -
  let ?t = "inserir_todas PistaNULL ps"
  have a: "p \<in> set (exibirPistas ?t) \<longrightarrow>
      inserirPista ?t (Some p) = ?t
      \<and> exibirPistas (inserirPista ?t (Some p)) = exibirPistas ?t"
  proof
    assume m: "p \<in> set (exibirPistas ?t)"
    have "quase_ordenada ?t" using inserir_todas_inv [of ps] by blast
    then have "inserirPista ?t (Some p) = ?t" using m by (rule inserirPista_presente)
    then show "inserirPista ?t (Some p) = ?t
      \<and> exibirPistas (inserirPista ?t (Some p)) = exibirPistas ?t" by simp
  qed
  have b: "length p < MAX_PISTA \<longrightarrow>
      inserirPista (inserirPista ?t (Some p)) (Some p) = inserirPista ?t (Some p)
      \<and> exibirPistas (inserir_todas PistaNULL (ps @ [p, p]))
          = exibirPistas (inserir_todas PistaNULL (ps @ [p]))"
  proof
    assume l: "length p < MAX_PISTA"
    have i: "inserirPista (inserirPista ?t (Some p)) (Some p) = inserirPista ?t (Some p)"
    proof (cases "p = []")
      case True
      then show ?thesis by (simp add: inserirPista_vazia)
    next
      case False
      have c: "strncpy_term MAX_PISTA p = p" using l by (simp add: strncpy_term_def)
      have m: "p \<in> set (exibirPistas (inserirPista ?t (Some p)))"
        using False c by (rule inserirPista_member)
      have "quase_ordenada (inserir_todas PistaNULL (ps @ [p]))"
        using inserir_todas_inv [of "ps @ [p]"] by blast
      then have "quase_ordenada (inserirPista ?t (Some p))" by (simp only: inserir_todas_snoc)
      then show ?thesis using m by (rule inserirPista_presente)
    qed
    have "inserir_todas PistaNULL (ps @ [p, p]) = inserirPista (inserirPista ?t (Some p)) (Some p)"
      by (simp add: inserir_todas_def)
    with i show "inserirPista (inserirPista ?t (Some p)) (Some p) = inserirPista ?t (Some p)
      \<and> exibirPistas (inserir_todas PistaNULL (ps @ [p, p]))
          = exibirPistas (inserir_todas PistaNULL (ps @ [p]))"
      by (simp add: inserir_todas_snoc)
  qed
  from a b show ?thesis by blast
qed

theorem reinsercao_sem_efeito_witness:
  "pista_hall \<in> set (exibirPistas (inserir_todas PistaNULL [pista_hall, pista_cozinha]))
   \<and> inserirPista (inserir_todas PistaNULL [pista_hall, pista_cozinha]) (Some pista_hall)
       = PistaNode pista_hall (PistaNode pista_cozinha PistaNULL PistaNULL) PistaNULL
   \<and> exibirPistas (inserirPista (inserir_todas PistaNULL [pista_hall, pista_cozinha])
        (Some pista_hall)) = [pista_cozinha, pista_hall]
   \<and> length pista_cozinha < MAX_PISTA
   \<and> pista_cozinha \<notin> set (exibirPistas (inserir_todas PistaNULL [pista_hall]))
   \<and> inserirPista (inserirPista (inserir_todas PistaNULL [pista_hall]) (Some pista_cozinha))
        (Some pista_cozinha)
       = PistaNode pista_hall (PistaNode pista_cozinha PistaNULL PistaNULL) PistaNULL
   \<and> exibirPistas (inserir_todas PistaNULL ([pista_hall] @ [pista_cozinha, pista_cozinha]))
       = [pista_cozinha, pista_hall]
   \<and> exibirPistas (inserir_todas PistaNULL ([pista_hall] @ [pista_cozinha]))
       = [pista_cozinha, pista_hall]"
proof -
  have t: "inserir_todas PistaNULL [pista_hall, pista_cozinha]
            = PistaNode pista_hall (PistaNode pista_cozinha PistaNULL PistaNULL) PistaNULL"
    by (simp add: inserir_todas_def pista_hall_def pista_cozinha_def strncpy_term_def
          MAX_PISTA_def)
  then have m: "pista_hall \<in> set (exibirPistas (inserir_todas PistaNULL [pista_hall, pista_cozinha]))"
    by simp
  have l: "length pista_cozinha < MAX_PISTA" by (simp add: pista_cozinha_def MAX_PISTA_def)
  have n: "pista_cozinha \<notin> set (exibirPistas (inserir_todas PistaNULL [pista_hall]))"
    by (simp add: inserir_todas_def pista_hall_def pista_cozinha_def strncpy_term_def
          MAX_PISTA_def)
  have u: "inserirPista (inserir_todas PistaNULL [pista_hall]) (Some pista_cozinha)
            = inserir_todas PistaNULL [pista_hall, pista_cozinha]"
    by (simp add: inserir_todas_def)
  have v: "[pista_hall] @ [pista_cozinha] = [pista_hall, pista_cozinha]" by simp
  from reinsercao_sem_efeito [of pista_hall "[pista_hall, pista_cozinha]"] m
  have a: "inserirPista (inserir_todas PistaNULL [pista_hall, pista_cozinha]) (Some pista_hall)
        = inserir_todas PistaNULL [pista_hall, pista_cozinha]
      \<and> exibirPistas (inserirPista (inserir_todas PistaNULL [pista_hall, pista_cozinha])
          (Some pista_hall)) = exibirPistas (inserir_todas PistaNULL [pista_hall, pista_cozinha])"
    by blast
  from reinsercao_sem_efeito [of pista_cozinha "[pista_hall]"] l
  have b: "inserirPista (inserirPista (inserir_todas PistaNULL [pista_hall]) (Some pista_cozinha))
          (Some pista_cozinha)
        = inserirPista (inserir_todas PistaNULL [pista_hall]) (Some pista_cozinha)
      \<and> exibirPistas (inserir_todas PistaNULL ([pista_hall] @ [pista_cozinha, pista_cozinha]))
          = exibirPistas (inserir_todas PistaNULL ([pista_hall] @ [pista_cozinha]))"
    by blast
  have e: "exibirPistas (inserir_todas PistaNULL [pista_hall, pista_cozinha])
            = [pista_cozinha, pista_hall]"
    by (simp only: t) simp
  from a b m l n show ?thesis by (simp only: u v t e) simp
qed

text \<open>
  The claim as stated fails for a text of 128 bytes: the first insertion stores its first
  127 bytes, the second insertion compares the whole text with the stored one, finds it
  greater, and stores the same 127 bytes again.
\<close>

theorem reinsercao_longa_counterexample:
  "exibirPistas (inserir_todas PistaNULL [replicate 128 (CHR ''a'')])
     = [replicate 127 (CHR ''a'')]
   \<and> exibirPistas (inserir_todas PistaNULL [replicate 128 (CHR ''a''), replicate 128 (CHR ''a'')])
     = [replicate 127 (CHR ''a''), replicate 127 (CHR ''a'')]"
proof -
  have r: "replicate 128 (CHR ''a'') = replicate 127 (CHR ''a'') @ ''a''"
  proof -
    have "replicate (127 + 1) (CHR ''a'') = replicate 127 (CHR ''a'') @ replicate 1 (CHR ''a'')"
      by (rule replicate_add)
    then show ?thesis by simp
  qed
  show ?thesis
    by (simp add: r inserir_todas_def strncpy_term_def MAX_PISTA_def strcmp_extensao)
qed


section \<open>Properties of the suspect index\<close>

lemma inicializarHash_val: "inicializarHash = [[], [], [], [], [], [], [], [], [], [], []]"
  by (simp add: inicializarHash_def TAM_HASH_def numeral_eq_Suc)

lemma tabela_main_val: "tabela_main =
  [[], [], [], [SuspeitoNode pista_hall ''Jardineiro''],
   [SuspeitoNode pista_estudo ''Governanta''],
   [SuspeitoNode pista_sotao ''Madame Sinclair''],
   [], [], [],
   [SuspeitoNode pista_jardim ''Jardineiro'', SuspeitoNode pista_cozinha ''Madame Sinclair''],
   [SuspeitoNode pista_biblioteca ''Governanta'']]"
  by code_simp

lemma percorrer_cadeia_ausente:
  "\<forall>n \<in> set cadeia. sn_pista n \<noteq> p \<Longrightarrow> percorrer_cadeia cadeia p = ''Desconhecido''"
  by (induction cadeia) (simp_all add: strcmp_eq_iff)

lemma inserirNaHash_Some:
  "inserirNaHash tabela (Some p) (Some s) =
     tabela[nat (hash p) :=
       SuspeitoNode (strncpy_term MAX_PISTA p) (strncpy_term MAX_NOME s) # tabela ! nat (hash p)]"
  by (simp add: inserirNaHash_def Let_def)

text \<open>
  Claim C6. In a table of \<open>TAM_HASH\<close> buckets, the lookup of a clue text that is the key
  of no entry returns the sentinel \<^verbatim>\<open>"Desconhecido"\<close> (the program's "unknown"). The
  lookup is a total function: it returns a text for every table and every argument.
\<close>

theorem pista_ausente_desconhecido:
  assumes "length tabela = TAM_HASH"
    and "p \<notin> sn_pista ` set (concat tabela)"
  shows "encontrarSuspeito tabela (Some p) = ''Desconhecido''"
proof -
  have "tabela ! nat (hash p) \<in> set tabela"
    using assms(1) nat_hash_less [of p] by simp
  then have "set (tabela ! nat (hash p)) \<subseteq> set (concat tabela)" by auto
  then have "\<forall>n \<in> set (tabela ! nat (hash p)). sn_pista n \<noteq> p"
    using assms(2) by blast
  then show ?thesis by (simp add: encontrarSuspeito_def percorrer_cadeia_ausente)
qed

theorem pista_ausente_desconhecido_witness:
  "length tabela_main = TAM_HASH
   \<and> ''Pista que ninguem associou'' \<notin> sn_pista ` set (concat tabela_main)
   \<and> encontrarSuspeito tabela_main (Some ''Pista que ninguem associou'') = ''Desconhecido''"
proof -
  have h1: "length tabela_main = TAM_HASH" by (simp add: tabela_main_val TAM_HASH_def)
  have h2: "''Pista que ninguem associou'' \<notin> sn_pista ` set (concat tabela_main)"
    by (simp add: tabela_main_val pista_hall_def pista_biblioteca_def pista_cozinha_def
          pista_estudo_def pista_jardim_def pista_sotao_def)
  from pista_ausente_desconhecido [OF h1 h2] h1 h2 show ?thesis by blast
qed

text \<open>
  Claim C5, as amended. In a table of \<open>TAM_HASH\<close> buckets, an insertion puts a new entry
  at the head of the chain of bucket \<open>hash p\<close> and changes nothing else; the entry holds
  the first 127 bytes of the clue text and the first 63 bytes of the suspect name. When
  the same clue text is inserted twice, both entries stay in the chain, the later one
  first. For a clue text of at most 127 bytes the lookup then returns the suspect
  inserted last, as stored (the name itself when it has at most 63 bytes).
\<close>

theorem inserirNaHash_no_inicio:
  assumes "length tabela = TAM_HASH"
  shows "inserirNaHash tabela (Some p) (Some s1)
           = tabela[nat (hash p) :=
               SuspeitoNode (strncpy_term MAX_PISTA p) (strncpy_term MAX_NOME s1)
                 # tabela ! nat (hash p)]
         \<and> nat (hash p) < length tabela
         \<and> inserirNaHash (inserirNaHash tabela (Some p) (Some s1)) (Some p) (Some s2) ! nat (hash p)
             = SuspeitoNode (strncpy_term MAX_PISTA p) (strncpy_term MAX_NOME s2)
                 # SuspeitoNode (strncpy_term MAX_PISTA p) (strncpy_term MAX_NOME s1)
                 # tabela ! nat (hash p)
         \<and> (length p < MAX_PISTA \<longrightarrow>
               encontrarSuspeito (inserirNaHash tabela (Some p) (Some s1)) (Some p)
                 = strncpy_term MAX_NOME s1
               \<and> encontrarSuspeito
                   (inserirNaHash (inserirNaHash tabela (Some p) (Some s1)) (Some p) (Some s2))
                   (Some p)
                 = strncpy_term MAX_NOME s2)
         \<and> (length s2 < MAX_NOME \<longrightarrow> strncpy_term MAX_NOME s2 = s2)"
proof -
  have i: "nat (hash p) < length tabela" using assms nat_hash_less [of p] by simp
  have c: "length p < MAX_PISTA \<Longrightarrow> strncpy_term MAX_PISTA p = p"
    by (simp add: strncpy_term_def)
  show ?thesis using i c
    by (simp add: inserirNaHash_Some encontrarSuspeito_def strcmp_eq_iff strncpy_term_def)
qed

theorem inserirNaHash_no_inicio_witness:
  "length tabela_main = TAM_HASH \<and> length pista_cozinha < MAX_PISTA
   \<and> length ''Mordomo'' < MAX_NOME
   \<and> nat (hash pista_cozinha) = 9
   \<and> inserirNaHash (inserirNaHash tabela_main (Some pista_cozinha) (Some ''Governanta''))
        (Some pista_cozinha) (Some ''Mordomo'') ! 9
       = [SuspeitoNode pista_cozinha ''Mordomo'', SuspeitoNode pista_cozinha ''Governanta'',
          SuspeitoNode pista_jardim ''Jardineiro'',
          SuspeitoNode pista_cozinha ''Madame Sinclair'']
   \<and> encontrarSuspeito
        (inserirNaHash (inserirNaHash tabela_main (Some pista_cozinha) (Some ''Governanta''))
           (Some pista_cozinha) (Some ''Mordomo''))
        (Some pista_cozinha) = ''Mordomo''"
proof -
  have h: "length tabela_main = TAM_HASH" by (simp add: tabela_main_val TAM_HASH_def)
  have l: "length pista_cozinha < MAX_PISTA \<and> length ''Mordomo'' < MAX_NOME"
    by (simp add: pista_cozinha_def MAX_PISTA_def MAX_NOME_def)
  have k: "nat (hash pista_cozinha) = 9"
    by (simp add: hash_sum soma_dos_bytes_def pista_cozinha_def)
  have c: "strncpy_term MAX_PISTA pista_cozinha = pista_cozinha"
    "strncpy_term MAX_NOME ''Mordomo'' = ''Mordomo''"
    "strncpy_term MAX_NOME ''Governanta'' = ''Governanta''"
    by (simp_all add: strncpy_term_def pista_cozinha_def MAX_PISTA_def MAX_NOME_def)
  have b: "tabela_main ! 9 = [SuspeitoNode pista_jardim ''Jardineiro'',
          SuspeitoNode pista_cozinha ''Madame Sinclair'']"
    by (simp add: tabela_main_val)
  let ?t = "inserirNaHash (inserirNaHash tabela_main (Some pista_cozinha) (Some ''Governanta''))
              (Some pista_cozinha) (Some ''Mordomo'')"
  from inserirNaHash_no_inicio [OF h, of pista_cozinha "''Governanta''" "''Mordomo''"] l
  have r: "?t ! nat (hash pista_cozinha)
             = SuspeitoNode (strncpy_term MAX_PISTA pista_cozinha) (strncpy_term MAX_NOME ''Mordomo'')
                 # SuspeitoNode (strncpy_term MAX_PISTA pista_cozinha)
                     (strncpy_term MAX_NOME ''Governanta'')
                 # tabela_main ! nat (hash pista_cozinha)
           \<and> encontrarSuspeito ?t (Some pista_cozinha) = strncpy_term MAX_NOME ''Mordomo''"
    by blast
  then have "?t ! 9 = [SuspeitoNode pista_cozinha ''Mordomo'',
                       SuspeitoNode pista_cozinha ''Governanta'',
                       SuspeitoNode pista_jardim ''Jardineiro'',
                       SuspeitoNode pista_cozinha ''Madame Sinclair'']
             \<and> encontrarSuspeito ?t (Some pista_cozinha) = ''Mordomo''"
    by (simp only: k c b)
  with h l k show ?thesis by blast
qed

text \<open>
  The claim as stated fails for a clue text of 128 bytes: the entry keeps 127 bytes of it,
  no stored key equals the text, and the lookup of the text just inserted returns the
  sentinel.
\<close>

theorem pista_longa_counterexample:
  "encontrarSuspeito
     (inserirNaHash inicializarHash (Some (replicate 128 (CHR ''a''))) (Some ''Mordomo''))
     (Some (replicate 128 (CHR ''a''))) = ''Desconhecido''
   \<and> inserirNaHash inicializarHash (Some (replicate 128 (CHR ''a''))) (Some ''Mordomo'') ! 8
       = [SuspeitoNode (replicate 127 (CHR ''a'')) ''Mordomo'']"
proof -
  have k: "nat (hash (replicate 128 (CHR ''a''))) = 8"
    by (simp add: hash_sum soma_dos_bytes_def sum_list_replicate)
  have n: "replicate 127 (CHR ''a'') \<noteq> replicate 128 (CHR ''a'')"
    by (metis length_replicate numeral_eq_iff semiring_norm(88) semiring_norm(90))
  show ?thesis using n
    by (simp add: inserirNaHash_Some encontrarSuspeito_def k inicializarHash_val
        strncpy_term_def MAX_PISTA_def MAX_NOME_def strcmp_eq_iff)
qed

text \<open>
  Claim C10. An insertion with a null clue text or a null suspect name returns the table
  as it was, and a lookup with a null clue text returns the sentinel.
\<close>

theorem argumentos_nulos:
  "inserirNaHash tabela None s = tabela
   \<and> inserirNaHash tabela p None = tabela
   \<and> encontrarSuspeito tabela None = ''Desconhecido''"
  by (simp add: inserirNaHash_def encontrarSuspeito_def split: option.split)


section \<open>Properties of the accusation\<close>

lemma contadorRec_filter:
  "contadorRec tabela acusado t
     = int (length (filter (\<lambda>c. encontrarSuspeito tabela (Some c) = acusado) (exibirPistas t)))"
  by (induction t) (simp_all add: Let_def strcmp_eq_iff)

lemma contadorRec_bounds:
  "0 \<le> contadorRec tabela acusado t
   \<and> contadorRec tabela acusado t \<le> int (length (exibirPistas t))"
  by (simp add: contadorRec_filter)

lemma contar_countClueMatches:
  assumes "mset enumeracao = mset (exibirPistas raizPistas)"
  shows "contarPistasPorSuspeitoNaBST tabela raizPistas acusado
           = int (countClueMatches tabela enumeracao acusado)"
proof -
  let ?P = "\<lambda>c. encontrarSuspeito tabela (Some c) = acusado"
  have "mset (filter ?P enumeracao) = mset (filter ?P (exibirPistas raizPistas))"
    using assms by (simp only: mset_filter)
  then have "length (filter ?P enumeracao) = length (filter ?P (exibirPistas raizPistas))"
    by (rule mset_eq_length)
  then show ?thesis
    by (cases raizPistas)
      (simp_all add: contarPistasPorSuspeitoNaBST_def countClueMatches_def contadorRec_filter
         del: contadorRec.simps)
qed

lemma fgets_linha_curta:
  "fgets MAX_NOME (imprimir MsgFaseFinal \<lparr>entrada = ''Jardineiro'' @ [NL], saida = []\<rparr>)
     = (Some (''Jardineiro'' @ [NL]), \<lparr>entrada = [], saida = [MsgFaseFinal]\<rparr>)"
  by (simp add: fgets_def imprimir_def NL_def MAX_NOME_def)

text \<open>
  Claim C1. Whenever a name is read (the input is not at its end and the line is not
  empty), the count computed over the tree equals the number of clues, in any
  enumeration of the store whatever its order, whose lookup in the table is byte-wise
  the accused name, and the verdict printed is the classification of that count:
  confirmed for 2 or more, weak for exactly 1, unfounded for 0.
\<close>

theorem veredito_pela_contagem:
  assumes "fgets MAX_NOME (imprimir MsgFaseFinal con) = (Some buf, con1)"
    and "cortar_linha buf \<noteq> []"
    and "mset enumeracao = mset (exibirPistas raizPistas)"
  shows "contarPistasPorSuspeitoNaBST tabela raizPistas (cortar_linha buf)
           = int (countClueMatches tabela enumeracao (cortar_linha buf))
         \<and> verificarSuspeitoFinal tabela raizPistas con
           = (tabela, raizPistas,
              imprimir (MsgAssociacoes (concat (take TAM_HASH tabela)))
                (imprimir (MsgResumoPistas (exibirPistas raizPistas))
                  (imprimir
                    (relato_veredito
                       (classify (countClueMatches tabela enumeracao (cortar_linha buf)))
                       (cortar_linha buf)
                       (countClueMatches tabela enumeracao (cortar_linha buf)))
                    con1)))
         \<and> (classify (countClueMatches tabela enumeracao (cortar_linha buf)) = Confirmada
              \<longleftrightarrow> countClueMatches tabela enumeracao (cortar_linha buf) \<ge> 2)
         \<and> (classify (countClueMatches tabela enumeracao (cortar_linha buf)) = Fragil
              \<longleftrightarrow> countClueMatches tabela enumeracao (cortar_linha buf) = 1)
         \<and> (classify (countClueMatches tabela enumeracao (cortar_linha buf)) = SemFundamento
              \<longleftrightarrow> countClueMatches tabela enumeracao (cortar_linha buf) = 0)"
proof -
  let ?n = "countClueMatches tabela enumeracao (cortar_linha buf)"
  have c: "contarPistasPorSuspeitoNaBST tabela raizPistas (cortar_linha buf) = int ?n"
    using assms(3) by (rule contar_countClueMatches)
  have v: "verificarSuspeitoFinal tabela raizPistas con
           = (tabela, raizPistas,
              imprimir (MsgAssociacoes (concat (take TAM_HASH tabela)))
                (imprimir (MsgResumoPistas (exibirPistas raizPistas))
                  (imprimir (relato_veredito (classify ?n) (cortar_linha buf) ?n) con1)))"
    using assms(1,2) by (simp add: verificarSuspeitoFinal_def c classify_def Let_def)
  have k: "(classify ?n = Confirmada \<longleftrightarrow> ?n \<ge> 2) \<and> (classify ?n = Fragil \<longleftrightarrow> ?n = 1)
           \<and> (classify ?n = SemFundamento \<longleftrightarrow> ?n = 0)"
    by (simp add: classify_def)
  from c v k show ?thesis by blast
qed


theorem veredito_pela_contagem_witness:
  "fgets MAX_NOME (imprimir MsgFaseFinal \<lparr>entrada = ''Jardineiro'' @ [NL], saida = []\<rparr>)
     = (Some (''Jardineiro'' @ [NL]), \<lparr>entrada = [], saida = [MsgFaseFinal]\<rparr>)
   \<and> cortar_linha (''Jardineiro'' @ [NL]) = ''Jardineiro''
   \<and> mset [pista_hall, pista_jardim]
       = mset (exibirPistas (inserir_todas PistaNULL [pista_hall, pista_jardim]))
   \<and> countClueMatches tabela_main [pista_hall, pista_jardim] ''Jardineiro'' = 2
   \<and> verificarSuspeitoFinal tabela_main (inserir_todas PistaNULL [pista_hall, pista_jardim])
         \<lparr>entrada = ''Jardineiro'' @ [NL], saida = []\<rparr>
       = (tabela_main, inserir_todas PistaNULL [pista_hall, pista_jardim],
          \<lparr>entrada = [],
           saida = [MsgFaseFinal, MsgAcusacaoConfirmada ''Jardineiro'' 2,
                    MsgResumoPistas [pista_jardim, pista_hall],
                    MsgAssociacoes (concat tabela_main)]\<rparr>)"
proof -
  let ?raiz = "inserir_todas PistaNULL [pista_hall, pista_jardim]"
  have c: "cortar_linha (''Jardineiro'' @ [NL]) = ''Jardineiro''"
    by (simp add: cortar_linha_def NL_def NUL_def)
  then have ne: "cortar_linha (''Jardineiro'' @ [NL]) \<noteq> []" by simp
  have e: "exibirPistas ?raiz = [pista_jardim, pista_hall]"
    by (simp add: inserir_todas_def pista_hall_def pista_jardim_def strncpy_term_def
          MAX_PISTA_def)
  then have m: "mset [pista_hall, pista_jardim] = mset (exibirPistas ?raiz)" by simp
  have n: "countClueMatches tabela_main [pista_hall, pista_jardim] ''Jardineiro'' = 2"
    by code_simp
  have t: "take TAM_HASH tabela_main = tabela_main"
    by (simp add: tabela_main_val TAM_HASH_def)
  from veredito_pela_contagem [OF fgets_linha_curta ne m, of tabela_main]
  have "verificarSuspeitoFinal tabela_main ?raiz \<lparr>entrada = ''Jardineiro'' @ [NL], saida = []\<rparr>
       = (tabela_main, ?raiz,
          imprimir (MsgAssociacoes (concat (take TAM_HASH tabela_main)))
            (imprimir (MsgResumoPistas (exibirPistas ?raiz))
              (imprimir
                 (relato_veredito
                    (classify (countClueMatches tabela_main [pista_hall, pista_jardim]
                                 (cortar_linha (''Jardineiro'' @ [NL]))))
                    (cortar_linha (''Jardineiro'' @ [NL]))
                    (countClueMatches tabela_main [pista_hall, pista_jardim]
                       (cortar_linha (''Jardineiro'' @ [NL]))))
                 \<lparr>entrada = [], saida = [MsgFaseFinal]\<rparr>)))"
    by blast
  then have "verificarSuspeitoFinal tabela_main ?raiz \<lparr>entrada = ''Jardineiro'' @ [NL], saida = []\<rparr>
       = (tabela_main, ?raiz,
          \<lparr>entrada = [],
           saida = [MsgFaseFinal, MsgAcusacaoConfirmada ''Jardineiro'' 2,
                    MsgResumoPistas [pista_jardim, pista_hall],
                    MsgAssociacoes (concat tabela_main)]\<rparr>)"
    by (simp only: c n e t) (simp add: classify_def imprimir_def)
  with fgets_linha_curta c m n show ?thesis by blast
qed

text \<open>
  Claim C4, as amended. When the accusation input is empty (an empty line, that is a
  newline first, or a NUL byte first) the phase reports the abort and prints no verdict;
  at the end of input it reports an invalid input and prints no verdict either. The
  table and the clue store are left as they were, and after an empty line the rest of
  the input is untouched.
\<close>

theorem acusacao_vazia_abortada:
  assumes "entrada con = [] \<or> hd (entrada con) = NL \<or> hd (entrada con) = NUL"
  shows "fst (verificarSuspeitoFinal tabela raizPistas con) = tabela
         \<and> fst (snd (verificarSuspeitoFinal tabela raizPistas con)) = raizPistas
         \<and> saida (snd (snd (verificarSuspeitoFinal tabela raizPistas con)))
             = saida con @ [MsgFaseFinal,
                 if entrada con = [] then MsgEntradaInvalida else MsgAcusacaoAbortada]
         \<and> (entrada con \<noteq> [] \<and> hd (entrada con) = NL \<longrightarrow>
               entrada (snd (snd (verificarSuspeitoFinal tabela raizPistas con)))
                 = tl (entrada con))"
proof (cases "entrada con")
  case Nil
  then show ?thesis
    by (simp add: verificarSuspeitoFinal_def fgets_def imprimir_def)
next
  case (Cons c r)
  with assms have "c = NL \<or> c = NUL" by simp
  then show ?thesis
  proof
    assume "c = NL"
    with Cons show ?thesis
      by (simp add: verificarSuspeitoFinal_def fgets_def imprimir_def cortar_linha_def
            MAX_NOME_def Let_def)
  next
    assume "c = NUL"
    with Cons show ?thesis
      by (simp add: verificarSuspeitoFinal_def fgets_def imprimir_def cortar_linha_def
            MAX_NOME_def Let_def NL_def NUL_def)
  qed
qed

theorem acusacao_vazia_abortada_witness:
  "hd (entrada \<lparr>entrada = [NL], saida = []\<rparr>) = NL
   \<and> verificarSuspeitoFinal tabela_main (inserir_todas PistaNULL [pista_hall])
        \<lparr>entrada = [NL], saida = []\<rparr>
       = (tabela_main, inserir_todas PistaNULL [pista_hall],
          \<lparr>entrada = [], saida = [MsgFaseFinal, MsgAcusacaoAbortada]\<rparr>)"
proof -
  let ?con = "\<lparr>entrada = [NL], saida = []\<rparr>"
  have h: "entrada ?con = [] \<or> hd (entrada ?con) = NL \<or> hd (entrada ?con) = NUL" by simp
  from acusacao_vazia_abortada [OF h, of tabela_main "inserir_todas PistaNULL [pista_hall]"]
  show ?thesis by (auto simp: prod_eq_iff)
qed

text \<open>
  The claim as stated fails for a name made of white space only: the line is not
  trimmed, so two spaces are a name like any other, and the phase prints the verdict
  "unfounded" for it.
\<close>

theorem acusacao_em_branco_counterexample:
  "verificarSuspeitoFinal tabela_main (inserir_todas PistaNULL [pista_hall])
     \<lparr>entrada = [CHR 0x20, CHR 0x20, NL], saida = []\<rparr>
   = (tabela_main, inserir_todas PistaNULL [pista_hall],
      \<lparr>entrada = [],
       saida = [MsgFaseFinal, MsgAcusacaoSemFundamento [CHR 0x20, CHR 0x20],
                MsgResumoPistas [pista_hall], MsgAssociacoes (concat tabela_main)]\<rparr>)"
proof -
  have t: "take TAM_HASH tabela_main = tabela_main"
    by (simp add: tabela_main_val TAM_HASH_def)
  have r: "inserir_todas PistaNULL [pista_hall] = PistaNode pista_hall PistaNULL PistaNULL"
    by (simp add: inserir_todas_def pista_hall_def strncpy_term_def MAX_PISTA_def)
  have l: "encontrarSuspeito tabela_main (Some pista_hall) = ''Jardineiro''"
    by code_simp
  show ?thesis
    by (simp add: verificarSuspeitoFinal_def fgets_def imprimir_def cortar_linha_def
          MAX_NOME_def Let_def NL_def NUL_def t r l contarPistasPorSuspeitoNaBST_def)
qed


section \<open>Properties of the exploration\<close>

text \<open>One iteration of the loop of \<open>explorarMansao\<close>, given what the arrival and the read yield.\<close>

lemma explorarMansao_passo:
  assumes "chegar atual raizPistas con = (raiz1, con1)"
    and "ler_opcao opcao con1 = (c, con2)"
  shows "explorarMansao (Suc n) opcao (Some atual) raizPistas con =
     (if c = CHR ''e'' \<or> c = CHR ''E'' then
           (if esquerda atual \<noteq> None
            then explorarMansao n c (esquerda atual) raiz1 con2
            else explorarMansao n c (Some atual) raiz1
                   (limparBufferEntrada (imprimir MsgCaminhoInexistenteEsquerda con2)))
         else if c = CHR ''d'' \<or> c = CHR ''D'' then
           (if direita atual \<noteq> None
            then explorarMansao n c (direita atual) raiz1 con2
            else explorarMansao n c (Some atual) raiz1
                   (limparBufferEntrada (imprimir MsgCaminhoInexistenteDireita con2)))
         else if c = CHR ''s'' \<or> c = CHR ''S'' then
           Some (raiz1, imprimir MsgEncerrando con2)
         else explorarMansao n c (Some atual) raiz1
                (limparBufferEntrada (imprimir MsgOpcaoInvalida con2)))"
  using assms by (simp del: split_paired_All)

lemma fst_chegar:
  "fst (chegar atual raizPistas con)
     = (if pista atual \<noteq> [] then inserirPista raizPistas (Some (pista atual)) else raizPistas)"
  by (simp add: chegar_def Let_def)

lemma saida_chegar:
  "saida (snd (chegar atual raizPistas con))
     = saida con @ [MsgLocal (nome atual),
         if pista atual \<noteq> [] then MsgPistaEncontrada (pista atual) else MsgNenhumaPista,
         MsgEscolha (map_option nome (esquerda atual)) (map_option nome (direita atual))]"
  by (simp add: chegar_def Let_def imprimir_def)


lemma nova_chegada_sem_efeito:
  assumes "length (pista atual) < MAX_PISTA"
  shows "fst (chegar atual (fst (chegar atual (inserir_todas PistaNULL ps) con)) con')
           = fst (chegar atual (inserir_todas PistaNULL ps) con)"
proof (cases "pista atual = []")
  case True
  then show ?thesis by (simp add: fst_chegar)
next
  case False
  let ?p = "pista atual"
  let ?r = "inserirPista (inserir_todas PistaNULL ps) (Some ?p)"
  have c: "strncpy_term MAX_PISTA ?p = ?p" using assms by (simp add: strncpy_term_def)
  have m: "?p \<in> set (exibirPistas ?r)" using False c by (rule inserirPista_member)
  have "quase_ordenada (inserir_todas PistaNULL (ps @ [?p]))"
    using inserir_todas_inv [of "ps @ [?p]"] by blast
  then have "quase_ordenada ?r" by (simp only: inserir_todas_snoc)
  then have "inserirPista ?r (Some ?p) = ?r" using m by (rule inserirPista_presente)
  then show ?thesis using False by (simp add: fst_chegar)
qed

lemma cozinha_val:
  "cozinha = Sala ''Cozinha'' pista_cozinha None (Some sotao)"
  by (simp add: cozinha_def criarSala_def strncpy_term_def MAX_NOME_def MAX_PISTA_def
        pista_cozinha_def)

lemma jardim_val: "jardim = Sala ''Jardim'' pista_jardim None None"
  by (simp add: jardim_def criarSala_def strncpy_term_def MAX_NOME_def MAX_PISTA_def
        pista_jardim_def)

lemma saida_ler_opcao: "saida (snd (ler_opcao opcao con)) = saida con"
  by (simp add: ler_opcao_def scanf_char_def limparBufferEntrada_def split: list.split)

lemma saida_limparBufferEntrada: "saida (limparBufferEntrada con) = saida con"
  by (simp add: limparBufferEntrada_def)

text \<open>
  Claim C9. Let the store be any store built by insertions from the empty store, and let
  the room's clue have at most 127 bytes, as the room's buffer does. When the command
  read at a room is invalid (a direction whose edge is absent, or a byte that is no
  command), the engine prints the report for it and goes on as the engine at the same
  room with the store it had at the prompt. The renewed arrival leaves that store as it
  is and shows the menu again, so that the output up to the next read is the first
  prompt, the report and the second prompt; and the engine then acts on the next command
  from that same room and store: it finishes with that store on \<open>s\<close>, follows an
  existing edge of the room on \<open>e\<close> or \<open>d\<close>, and stays at the room otherwise.
\<close>

theorem comando_invalido_sem_efeito:
  assumes "chegar atual (inserir_todas PistaNULL ps) con = (raiz1, con1)"
    and "ler_opcao opcao con1 = (c, con2)"
    and "comando_invalido atual c"
    and "length (pista atual) < MAX_PISTA"
    and "ler_opcao c
           (snd (chegar atual raiz1 (limparBufferEntrada (imprimir (relato_invalido c) con2))))
         = (c', con3)"
  shows "explorarMansao (Suc n) opcao (Some atual) (inserir_todas PistaNULL ps) con
           = explorarMansao n c (Some atual) raiz1
               (limparBufferEntrada (imprimir (relato_invalido c) con2))
         \<and> fst (chegar atual raiz1 con') = raiz1
         \<and> saida (snd (chegar atual raiz1 con'))
             = saida con' @ [MsgLocal (nome atual),
                 if pista atual \<noteq> [] then MsgPistaEncontrada (pista atual) else MsgNenhumaPista,
                 MsgEscolha (map_option nome (esquerda atual)) (map_option nome (direita atual))]
         \<and> saida con3
             = saida con @ [MsgLocal (nome atual),
                 if pista atual \<noteq> [] then MsgPistaEncontrada (pista atual) else MsgNenhumaPista,
                 MsgEscolha (map_option nome (esquerda atual)) (map_option nome (direita atual)),
                 relato_invalido c,
                 MsgLocal (nome atual),
                 if pista atual \<noteq> [] then MsgPistaEncontrada (pista atual) else MsgNenhumaPista,
                 MsgEscolha (map_option nome (esquerda atual)) (map_option nome (direita atual))]
         \<and> explorarMansao (Suc (Suc n)) opcao (Some atual) (inserir_todas PistaNULL ps) con
             = (if c' = CHR ''e'' \<or> c' = CHR ''E'' then
                  (if esquerda atual \<noteq> None
                   then explorarMansao n c' (esquerda atual) raiz1 con3
                   else explorarMansao n c' (Some atual) raiz1
                          (limparBufferEntrada (imprimir MsgCaminhoInexistenteEsquerda con3)))
                else if c' = CHR ''d'' \<or> c' = CHR ''D'' then
                  (if direita atual \<noteq> None
                   then explorarMansao n c' (direita atual) raiz1 con3
                   else explorarMansao n c' (Some atual) raiz1
                          (limparBufferEntrada (imprimir MsgCaminhoInexistenteDireita con3)))
                else if c' = CHR ''s'' \<or> c' = CHR ''S'' then
                  Some (raiz1, imprimir MsgEncerrando con3)
                else explorarMansao n c' (Some atual) raiz1
                       (limparBufferEntrada (imprimir MsgOpcaoInvalida con3)))"
proof -
  let ?conR = "limparBufferEntrada (imprimir (relato_invalido c) con2)"
  have a: "explorarMansao (Suc k) opcao (Some atual) (inserir_todas PistaNULL ps) con
           = explorarMansao k c (Some atual) raiz1 ?conR" for k
  proof -
    note passo = explorarMansao_passo [OF assms(1,2), of k]
    show ?thesis
    proof (cases "c = CHR ''e'' \<or> c = CHR ''E''")
      case True
      with assms(3) have "esquerda atual = None" by (simp add: comando_invalido_def)
      with True show ?thesis unfolding passo by (simp add: relato_invalido_def)
    next
      case e: False
      show ?thesis
      proof (cases "c = CHR ''d'' \<or> c = CHR ''D''")
        case True
        with e assms(3) have "direita atual = None" by (simp add: comando_invalido_def)
        with e True show ?thesis unfolding passo by (simp add: relato_invalido_def)
      next
        case d: False
        with e assms(3) have "\<not> (c = CHR ''s'' \<or> c = CHR ''S'')"
          by (simp add: comando_invalido_def)
        with e d show ?thesis unfolding passo by (simp add: relato_invalido_def)
      qed
    qed
  qed
  have r: "raiz1 = fst (chegar atual (inserir_todas PistaNULL ps) con)" using assms(1) by simp
  have b: "fst (chegar atual raiz1 x) = raiz1" for x
    using nova_chegada_sem_efeito [OF assms(4)] r by simp
  have s1: "saida con1 = saida con @ [MsgLocal (nome atual),
                 if pista atual \<noteq> [] then MsgPistaEncontrada (pista atual) else MsgNenhumaPista,
                 MsgEscolha (map_option nome (esquerda atual)) (map_option nome (direita atual))]"
    using saida_chegar [of atual "inserir_todas PistaNULL ps" con] assms(1) by simp
  have s2: "saida con2 = saida con1" using saida_ler_opcao [of opcao con1] assms(2) by simp
  have sR: "saida ?conR = saida con2 @ [relato_invalido c]"
    by (simp add: saida_limparBufferEntrada imprimir_def)
  have s3: "saida con3 = saida (snd (chegar atual raiz1 ?conR))"
    using saida_ler_opcao [of c "snd (chegar atual raiz1 ?conR)"] assms(5) by simp
  have d: "saida con3
             = saida con @ [MsgLocal (nome atual),
                 if pista atual \<noteq> [] then MsgPistaEncontrada (pista atual) else MsgNenhumaPista,
                 MsgEscolha (map_option nome (esquerda atual)) (map_option nome (direita atual)),
                 relato_invalido c,
                 MsgLocal (nome atual),
                 if pista atual \<noteq> [] then MsgPistaEncontrada (pista atual) else MsgNenhumaPista,
                 MsgEscolha (map_option nome (esquerda atual)) (map_option nome (direita atual))]"
    by (simp only: s3 saida_chegar sR s2 s1) simp
  have ch: "chegar atual raiz1 ?conR = (raiz1, snd (chegar atual raiz1 ?conR))"
    using b [of ?conR] by (simp add: prod_eq_iff)
  have e: "explorarMansao (Suc (Suc n)) opcao (Some atual) (inserir_todas PistaNULL ps) con
             = (if c' = CHR ''e'' \<or> c' = CHR ''E'' then
                  (if esquerda atual \<noteq> None
                   then explorarMansao n c' (esquerda atual) raiz1 con3
                   else explorarMansao n c' (Some atual) raiz1
                          (limparBufferEntrada (imprimir MsgCaminhoInexistenteEsquerda con3)))
                else if c' = CHR ''d'' \<or> c' = CHR ''D'' then
                  (if direita atual \<noteq> None
                   then explorarMansao n c' (direita atual) raiz1 con3
                   else explorarMansao n c' (Some atual) raiz1
                          (limparBufferEntrada (imprimir MsgCaminhoInexistenteDireita con3)))
                else if c' = CHR ''s'' \<or> c' = CHR ''S'' then
                  Some (raiz1, imprimir MsgEncerrando con3)
                else explorarMansao n c' (Some atual) raiz1
                       (limparBufferEntrada (imprimir MsgOpcaoInvalida con3)))"
    by (simp only: a [of "Suc n"] explorarMansao_passo [OF ch assms(5), of n])
  from a [of n] b [of con'] saida_chegar [of atual raiz1 con'] d e show ?thesis by blast
qed


theorem comando_invalido_sem_efeito_witness:
  "comando_invalido cozinha (CHR ''e'') \<and> length (pista cozinha) < MAX_PISTA
   \<and> chegar cozinha (inserir_todas PistaNULL [pista_hall])
        \<lparr>entrada = ''e'' @ [NL, NL] @ ''s'' @ [NL], saida = []\<rparr>
       = (inserir_todas PistaNULL [pista_hall, pista_cozinha],
          \<lparr>entrada = ''e'' @ [NL, NL] @ ''s'' @ [NL],
           saida = [MsgLocal ''Cozinha'', MsgPistaEncontrada pista_cozinha,
                    MsgEscolha None (Some (nome sotao))]\<rparr>)
   \<and> ler_opcao (CHR ''x'')
        \<lparr>entrada = ''e'' @ [NL, NL] @ ''s'' @ [NL],
         saida = [MsgLocal ''Cozinha'', MsgPistaEncontrada pista_cozinha,
                  MsgEscolha None (Some (nome sotao))]\<rparr>
       = (CHR ''e'',
          \<lparr>entrada = [NL] @ ''s'' @ [NL],
           saida = [MsgLocal ''Cozinha'', MsgPistaEncontrada pista_cozinha,
                    MsgEscolha None (Some (nome sotao))]\<rparr>)
   \<and> ler_opcao (CHR ''e'')
        (snd (chegar cozinha (inserir_todas PistaNULL [pista_hall, pista_cozinha])
           (limparBufferEntrada (imprimir (relato_invalido (CHR ''e''))
              \<lparr>entrada = [NL] @ ''s'' @ [NL],
               saida = [MsgLocal ''Cozinha'', MsgPistaEncontrada pista_cozinha,
                        MsgEscolha None (Some (nome sotao))]\<rparr>))))
       = (CHR ''s'',
          \<lparr>entrada = [],
           saida = [MsgLocal ''Cozinha'', MsgPistaEncontrada pista_cozinha,
                    MsgEscolha None (Some (nome sotao)), MsgCaminhoInexistenteEsquerda,
                    MsgLocal ''Cozinha'', MsgPistaEncontrada pista_cozinha,
                    MsgEscolha None (Some (nome sotao))]\<rparr>)
   \<and> explorarMansao (Suc (Suc 0)) (CHR ''x'') (Some cozinha)
        (inserir_todas PistaNULL [pista_hall])
        \<lparr>entrada = ''e'' @ [NL, NL] @ ''s'' @ [NL], saida = []\<rparr>
       = Some (inserir_todas PistaNULL [pista_hall, pista_cozinha],
               \<lparr>entrada = [],
                saida = [MsgLocal ''Cozinha'', MsgPistaEncontrada pista_cozinha,
                         MsgEscolha None (Some (nome sotao)), MsgCaminhoInexistenteEsquerda,
                         MsgLocal ''Cozinha'', MsgPistaEncontrada pista_cozinha,
                         MsgEscolha None (Some (nome sotao)), MsgEncerrando]\<rparr>)
   \<and> fst (chegar cozinha (inserir_todas PistaNULL [pista_hall, pista_cozinha])
             \<lparr>entrada = ''s'' @ [NL], saida = []\<rparr>)
       = inserir_todas PistaNULL [pista_hall, pista_cozinha]"
proof -
  let ?con = "\<lparr>entrada = ''e'' @ [NL, NL] @ ''s'' @ [NL], saida = []\<rparr>"
  let ?con1 = "\<lparr>entrada = ''e'' @ [NL, NL] @ ''s'' @ [NL],
           saida = [MsgLocal ''Cozinha'', MsgPistaEncontrada pista_cozinha,
                    MsgEscolha None (Some (nome sotao))]\<rparr>"
  let ?con2 = "\<lparr>entrada = [NL] @ ''s'' @ [NL],
           saida = [MsgLocal ''Cozinha'', MsgPistaEncontrada pista_cozinha,
                    MsgEscolha None (Some (nome sotao))]\<rparr>"
  let ?con3 = "\<lparr>entrada = [],
           saida = [MsgLocal ''Cozinha'', MsgPistaEncontrada pista_cozinha,
                    MsgEscolha None (Some (nome sotao)), MsgCaminhoInexistenteEsquerda,
                    MsgLocal ''Cozinha'', MsgPistaEncontrada pista_cozinha,
                    MsgEscolha None (Some (nome sotao))]\<rparr>"
  let ?r1 = "inserir_todas PistaNULL [pista_hall, pista_cozinha]"
  have h3: "comando_invalido cozinha (CHR ''e'')"
    by (simp add: comando_invalido_def cozinha_val)
  have h4: "length (pista cozinha) < MAX_PISTA"
    by (simp add: cozinha_val pista_cozinha_def MAX_PISTA_def)
  have ne: "pista_cozinha \<noteq> []" by (simp add: pista_cozinha_def)
  have h1: "chegar cozinha (inserir_todas PistaNULL [pista_hall]) ?con = (?r1, ?con1)"
    using ne by (simp add: chegar_def cozinha_val imprimir_def inserir_todas_def)
  have h2: "ler_opcao (CHR ''x'') ?con1 = (CHR ''e'', ?con2)"
    by (simp add: ler_opcao_def scanf_char_def limparBufferEntrada_def isspace_def NL_def)
  have l: "limparBufferEntrada (imprimir (relato_invalido (CHR ''e'')) ?con2)
           = \<lparr>entrada = ''s'' @ [NL],
            saida = [MsgLocal ''Cozinha'', MsgPistaEncontrada pista_cozinha,
                     MsgEscolha None (Some (nome sotao)), MsgCaminhoInexistenteEsquerda]\<rparr>"
    by (simp add: limparBufferEntrada_def imprimir_def relato_invalido_def NL_def)
  have k: "snd (chegar cozinha ?r1
              \<lparr>entrada = ''s'' @ [NL],
               saida = [MsgLocal ''Cozinha'', MsgPistaEncontrada pista_cozinha,
                        MsgEscolha None (Some (nome sotao)), MsgCaminhoInexistenteEsquerda]\<rparr>)
           = \<lparr>entrada = ''s'' @ [NL],
              saida = [MsgLocal ''Cozinha'', MsgPistaEncontrada pista_cozinha,
                       MsgEscolha None (Some (nome sotao)), MsgCaminhoInexistenteEsquerda,
                       MsgLocal ''Cozinha'', MsgPistaEncontrada pista_cozinha,
                       MsgEscolha None (Some (nome sotao))]\<rparr>"
    using ne by (simp add: chegar_def cozinha_val imprimir_def)
  have h5: "ler_opcao (CHR ''e'')
              (snd (chegar cozinha ?r1
                 (limparBufferEntrada (imprimir (relato_invalido (CHR ''e'')) ?con2))))
            = (CHR ''s'', ?con3)"
    by (simp only: l k)
      (simp add: ler_opcao_def scanf_char_def limparBufferEntrada_def isspace_def NL_def)
  from comando_invalido_sem_efeito [OF h1 h2 h3 h4 h5,
      where n = 0 and con' = "\<lparr>entrada = ''s'' @ [NL], saida = []\<rparr>"]
  have "fst (chegar cozinha ?r1 \<lparr>entrada = ''s'' @ [NL], saida = []\<rparr>) = ?r1
        \<and> explorarMansao (Suc (Suc 0)) (CHR ''x'') (Some cozinha)
            (inserir_todas PistaNULL [pista_hall]) ?con
           = (if CHR ''s'' = CHR ''e'' \<or> CHR ''s'' = CHR ''E'' then
                  (if esquerda cozinha \<noteq> None
                   then explorarMansao 0 (CHR ''s'') (esquerda cozinha) ?r1 ?con3
                   else explorarMansao 0 (CHR ''s'') (Some cozinha) ?r1
                          (limparBufferEntrada (imprimir MsgCaminhoInexistenteEsquerda ?con3)))
                else if CHR ''s'' = CHR ''d'' \<or> CHR ''s'' = CHR ''D'' then
                  (if direita cozinha \<noteq> None
                   then explorarMansao 0 (CHR ''s'') (direita cozinha) ?r1 ?con3
                   else explorarMansao 0 (CHR ''s'') (Some cozinha) ?r1
                          (limparBufferEntrada (imprimir MsgCaminhoInexistenteDireita ?con3)))
                else if CHR ''s'' = CHR ''s'' \<or> CHR ''s'' = CHR ''S'' then
                  Some (?r1, imprimir MsgEncerrando ?con3)
                else explorarMansao 0 (CHR ''s'') (Some cozinha) ?r1
                       (limparBufferEntrada (imprimir MsgOpcaoInvalida ?con3)))"
    by blast
  then have "fst (chegar cozinha ?r1 \<lparr>entrada = ''s'' @ [NL], saida = []\<rparr>) = ?r1
        \<and> explorarMansao (Suc (Suc 0)) (CHR ''x'') (Some cozinha)
            (inserir_todas PistaNULL [pista_hall]) ?con
           = Some (?r1,
               \<lparr>entrada = [],
                saida = [MsgLocal ''Cozinha'', MsgPistaEncontrada pista_cozinha,
                         MsgEscolha None (Some (nome sotao)), MsgCaminhoInexistenteEsquerda,
                         MsgLocal ''Cozinha'', MsgPistaEncontrada pista_cozinha,
                         MsgEscolha None (Some (nome sotao)), MsgEncerrando]\<rparr>)"
    by (simp add: imprimir_def del: explorarMansao.simps)
  with h1 h2 h3 h4 h5 show ?thesis by blast
qed

text \<open>
  Claim C3, as amended. In the room-only engine \<open>explorarSalas\<close>, arrival at a leaf
  reports the end of the exploration and returns, and the input is left unread. The
  clue-collecting engine \<open>explorarMansao\<close> has no leaf test: at a leaf it collects the
  clue, shows the menu and reads a command; on \<open>s\<close> or \<open>S\<close> it finishes, and on any
  other command it reports it and stays at the same leaf, so the exploration never moves
  past a leaf whatever the input.
\<close>

theorem folha_termina_ou_permanece:
  "(esquerda_s sala = None \<and> direita_s sala = None \<longrightarrow>
      explorarSalas (Suc m) op (Some sala) cs
        = Some (imprimir MsgFimDaExploracao (imprimir (MsgLocal (nome_s sala)) cs))
      \<and> entrada (imprimir MsgFimDaExploracao (imprimir (MsgLocal (nome_s sala)) cs))
          = entrada cs)
   \<and> (esquerda atual = None \<and> direita atual = None
       \<and> chegar atual raizPistas con = (raiz_c, con_c) \<and> ler_opcao opcao con_c = (c, con_l) \<longrightarrow>
      explorarMansao (Suc n) opcao (Some atual) raizPistas con
        = (if c = CHR ''s'' \<or> c = CHR ''S'' then Some (raiz_c, imprimir MsgEncerrando con_l)
           else explorarMansao n c (Some atual) raiz_c
                  (limparBufferEntrada (imprimir (relato_invalido c) con_l))))"
proof -
  have a: "esquerda_s sala = None \<and> direita_s sala = None \<longrightarrow>
      explorarSalas (Suc m) op (Some sala) cs
        = Some (imprimir MsgFimDaExploracao (imprimir (MsgLocal (nome_s sala)) cs))
      \<and> entrada (imprimir MsgFimDaExploracao (imprimir (MsgLocal (nome_s sala)) cs))
          = entrada cs"
    by (simp add: imprimir_def)
  have b: "esquerda atual = None \<and> direita atual = None
       \<and> chegar atual raizPistas con = (raiz_c, con_c) \<and> ler_opcao opcao con_c = (c, con_l) \<longrightarrow>
      explorarMansao (Suc n) opcao (Some atual) raizPistas con
        = (if c = CHR ''s'' \<or> c = CHR ''S'' then Some (raiz_c, imprimir MsgEncerrando con_l)
           else explorarMansao n c (Some atual) raiz_c
                  (limparBufferEntrada (imprimir (relato_invalido c) con_l)))"
  proof
    assume h: "esquerda atual = None \<and> direita atual = None
       \<and> chegar atual raizPistas con = (raiz_c, con_c) \<and> ler_opcao opcao con_c = (c, con_l)"
    then have p: "chegar atual raizPistas con = (raiz_c, con_c)" "ler_opcao opcao con_c = (c, con_l)"
      by simp_all
    from h show "explorarMansao (Suc n) opcao (Some atual) raizPistas con
        = (if c = CHR ''s'' \<or> c = CHR ''S'' then Some (raiz_c, imprimir MsgEncerrando con_l)
           else explorarMansao n c (Some atual) raiz_c
                  (limparBufferEntrada (imprimir (relato_invalido c) con_l)))"
      unfolding explorarMansao_passo [OF p, of n] by (simp add: relato_invalido_def)
  qed
  from a b show ?thesis by blast
qed


theorem folha_termina_ou_permanece_witness:
  "esquerda_s (SalaSimples ''Jardim'' None None) = None
   \<and> direita_s (SalaSimples ''Jardim'' None None) = None
   \<and> explorarSalas (Suc 0) (CHR ''x'') (Some (SalaSimples ''Jardim'' None None))
        \<lparr>entrada = ''e'' @ [NL], saida = []\<rparr>
       = Some \<lparr>entrada = ''e'' @ [NL], saida = [MsgLocal ''Jardim'', MsgFimDaExploracao]\<rparr>
   \<and> esquerda jardim = None \<and> direita jardim = None
   \<and> chegar jardim PistaNULL \<lparr>entrada = ''s'' @ [NL], saida = []\<rparr>
       = (PistaNode pista_jardim PistaNULL PistaNULL,
          \<lparr>entrada = ''s'' @ [NL],
           saida = [MsgLocal ''Jardim'', MsgPistaEncontrada pista_jardim, MsgEscolha None None]\<rparr>)
   \<and> ler_opcao (CHR ''x'')
        \<lparr>entrada = ''s'' @ [NL],
         saida = [MsgLocal ''Jardim'', MsgPistaEncontrada pista_jardim, MsgEscolha None None]\<rparr>
       = (CHR ''s'',
          \<lparr>entrada = [],
           saida = [MsgLocal ''Jardim'', MsgPistaEncontrada pista_jardim, MsgEscolha None None]\<rparr>)
   \<and> explorarMansao (Suc 0) (CHR ''x'') (Some jardim) PistaNULL
        \<lparr>entrada = ''s'' @ [NL], saida = []\<rparr>
       = Some (PistaNode pista_jardim PistaNULL PistaNULL,
               \<lparr>entrada = [],
                saida = [MsgLocal ''Jardim'', MsgPistaEncontrada pista_jardim,
                         MsgEscolha None None, MsgEncerrando]\<rparr>)"
proof -
  let ?s = "SalaSimples ''Jardim'' None None"
  let ?con = "\<lparr>entrada = ''s'' @ [NL], saida = []\<rparr>"
  let ?con1 = "\<lparr>entrada = ''s'' @ [NL],
           saida = [MsgLocal ''Jardim'', MsgPistaEncontrada pista_jardim, MsgEscolha None None]\<rparr>"
  let ?con2 = "\<lparr>entrada = [],
           saida = [MsgLocal ''Jardim'', MsgPistaEncontrada pista_jardim, MsgEscolha None None]\<rparr>"
  have a1: "esquerda_s ?s = None \<and> direita_s ?s = None" by simp
  have b1: "esquerda jardim = None \<and> direita jardim = None" by (simp add: jardim_val)
  have ne: "pista_jardim \<noteq> []" by (simp add: pista_jardim_def)
  have c: "strncpy_term MAX_PISTA pista_jardim = pista_jardim"
    by (simp add: strncpy_term_def pista_jardim_def MAX_PISTA_def)
  have b2: "chegar jardim PistaNULL ?con = (PistaNode pista_jardim PistaNULL PistaNULL, ?con1)"
    using ne by (simp add: chegar_def jardim_val imprimir_def c)
  have b3: "ler_opcao (CHR ''x'') ?con1 = (CHR ''s'', ?con2)"
    by (simp add: ler_opcao_def scanf_char_def limparBufferEntrada_def isspace_def NL_def)
  note t = folha_termina_ou_permanece [where sala = ?s and m = 0 and op = "CHR ''x''"
      and cs = "\<lparr>entrada = ''e'' @ [NL], saida = []\<rparr>" and atual = jardim
      and raizPistas = PistaNULL and con = ?con
      and raiz_c = "PistaNode pista_jardim PistaNULL PistaNULL" and con_c = ?con1
      and opcao = "CHR ''x''" and c = "CHR ''s''" and con_l = ?con2 and n = 0]
  from t a1
  have ta: "explorarSalas (Suc 0) (CHR ''x'') (Some ?s) \<lparr>entrada = ''e'' @ [NL], saida = []\<rparr>
       = Some (imprimir MsgFimDaExploracao (imprimir (MsgLocal (nome_s ?s))
                 \<lparr>entrada = ''e'' @ [NL], saida = []\<rparr>))"
    by blast
  from t b1 b2 b3
  have tb: "explorarMansao (Suc 0) (CHR ''x'') (Some jardim) PistaNULL ?con
       = (if CHR ''s'' = CHR ''s'' \<or> CHR ''s'' = CHR ''S''
          then Some (PistaNode pista_jardim PistaNULL PistaNULL, imprimir MsgEncerrando ?con2)
          else explorarMansao 0 (CHR ''s'') (Some jardim) (PistaNode pista_jardim PistaNULL PistaNULL)
                  (limparBufferEntrada (imprimir (relato_invalido (CHR ''s'')) ?con2)))"
    by blast
  from ta have ta': "explorarSalas (Suc 0) (CHR ''x'') (Some ?s) \<lparr>entrada = ''e'' @ [NL], saida = []\<rparr>
       = Some \<lparr>entrada = ''e'' @ [NL], saida = [MsgLocal ''Jardim'', MsgFimDaExploracao]\<rparr>"
    by (simp add: imprimir_def)
  from tb have tb': "explorarMansao (Suc 0) (CHR ''x'') (Some jardim) PistaNULL ?con
       = Some (PistaNode pista_jardim PistaNULL PistaNULL,
               \<lparr>entrada = [],
                saida = [MsgLocal ''Jardim'', MsgPistaEncontrada pista_jardim,
                         MsgEscolha None None, MsgEncerrando]\<rparr>)"
    by (simp add: imprimir_def)
  from a1 b1 b2 b3 ta' tb' show ?thesis by blast
qed

text \<open>
  The claim as stated fails for \<open>explorarMansao\<close>: at the leaf "Jardim" one iteration
  does not finish the exploration; the engine reads the command \<open>e\<close>, reports the absent
  path, prompts again at the same room, and finishes only on the command \<open>s\<close>, with the
  whole input consumed.
\<close>

theorem folha_le_entrada_counterexample:
  "esquerda jardim = None \<and> direita jardim = None
   \<and> explorarMansao 1 (CHR ''x'') (Some jardim) PistaNULL
        \<lparr>entrada = ''e'' @ [NL, NL] @ ''s'' @ [NL], saida = []\<rparr> = None
   \<and> explorarMansao 2 (CHR ''x'') (Some jardim) PistaNULL
        \<lparr>entrada = ''e'' @ [NL, NL] @ ''s'' @ [NL], saida = []\<rparr>
       = Some (PistaNode pista_jardim PistaNULL PistaNULL,
               \<lparr>entrada = [],
                saida = [MsgLocal ''Jardim'', MsgPistaEncontrada pista_jardim,
                         MsgEscolha None None, MsgCaminhoInexistenteEsquerda,
                         MsgLocal ''Jardim'', MsgPistaEncontrada pista_jardim,
                         MsgEscolha None None, MsgEncerrando]\<rparr>)"
  by code_simp


end
